theory Spec2Isabelle
  imports Complex_Main
begin

section \<open>Numbers\<close>

text \<open>
  The program computes with JavaScript numbers. Box dimensions, option values, random
  draws and the coordinates that the controller computes from them are modelled as finite
  reals with exact arithmetic (rounding and overflow are not modelled, and the two zeros of
  IEEE arithmetic are one). A division and a logarithm can leave the finite numbers even on
  finite arguments, and a sampled curve can have coordinates that are no numbers, so the
  results of \<open>fitts\<close>, the step count of \<open>path\<close> and the coordinates of the points of a
  lookup table and of a path are values of \<open>jsnum\<close>, which adds the two infinities and
  NaN.
\<close>

datatype jsnum = Fin real | PosInf | NegInf | NaN

text \<open>\<open>a / b\<close> on finite numbers.\<close>

definition jdiv :: "real \<Rightarrow> real \<Rightarrow> jsnum" where
  "jdiv a b =
     (if b \<noteq> 0 then Fin (a / b)
      else if 0 < a then PosInf
      else if a < 0 then NegInf
      else NaN)"

text \<open>\<open>a + b\<close>.\<close>

fun jadd :: "jsnum \<Rightarrow> jsnum \<Rightarrow> jsnum" where
  "jadd NaN _ = NaN"
| "jadd _ NaN = NaN"
| "jadd (Fin a) (Fin b) = Fin (a + b)"
| "jadd PosInf NegInf = NaN"
| "jadd NegInf PosInf = NaN"
| "jadd PosInf _ = PosInf"
| "jadd _ PosInf = PosInf"
| "jadd NegInf _ = NegInf"
| "jadd _ NegInf = NegInf"

text \<open>\<open>a * b\<close>: an infinity times zero is NaN, otherwise the signs multiply.\<close>

definition jsign :: "jsnum \<Rightarrow> real" where
  "jsign a = (case a of Fin r \<Rightarrow> sgn r | PosInf \<Rightarrow> 1 | NegInf \<Rightarrow> - 1 | NaN \<Rightarrow> 0)"

fun jmul :: "jsnum \<Rightarrow> jsnum \<Rightarrow> jsnum" where
  "jmul NaN _ = NaN"
| "jmul _ NaN = NaN"
| "jmul (Fin a) (Fin b) = Fin (a * b)"
| "jmul a b =
     (if jsign a * jsign b = 0 then NaN
      else if 0 < jsign a * jsign b then PosInf
      else NegInf)"

text \<open>\<open>Math.log2\<close>.\<close>

fun jlog2 :: "jsnum \<Rightarrow> jsnum" where
  "jlog2 (Fin r) = (if 0 < r then Fin (log 2 r) else if r = 0 then NegInf else NaN)"
| "jlog2 PosInf = PosInf"
| "jlog2 NegInf = NaN"
| "jlog2 NaN = NaN"

text \<open>\<open>Math.ceil\<close>.\<close>

fun jceil :: "jsnum \<Rightarrow> jsnum" where
  "jceil (Fin r) = Fin (of_int \<lceil>r\<rceil>)"
| "jceil a = a"

text \<open>\<open>Math.max(a, b)\<close>: NaN as soon as one argument is NaN.\<close>

fun jmax :: "jsnum \<Rightarrow> jsnum \<Rightarrow> jsnum" where
  "jmax NaN _ = NaN"
| "jmax _ NaN = NaN"
| "jmax (Fin a) (Fin b) = Fin (max a b)"
| "jmax PosInf _ = PosInf"
| "jmax _ PosInf = PosInf"
| "jmax NegInf b = b"
| "jmax a NegInf = a"

text \<open>The comparisons \<open>a <= b\<close> and \<open>a < b\<close>: false as soon as one side is NaN.\<close>

fun jle :: "jsnum \<Rightarrow> jsnum \<Rightarrow> bool" where
  "jle NaN _ = False"
| "jle _ NaN = False"
| "jle (Fin a) (Fin b) = (a \<le> b)"
| "jle NegInf _ = True"
| "jle _ PosInf = True"
| "jle _ _ = False"

fun jlt :: "jsnum \<Rightarrow> jsnum \<Rightarrow> bool" where
  "jlt NaN _ = False"
| "jlt _ NaN = False"
| "jlt (Fin a) (Fin b) = (a < b)"
| "jlt NegInf NegInf = False"
| "jlt NegInf _ = True"
| "jlt PosInf _ = False"
| "jlt _ PosInf = True"
| "jlt _ _ = False"

section \<open>Data\<close>

text \<open>
  \<open>Vector\<close> is the \<open>{x, y}\<close> of \<open>./math\<close>; \<open>Box\<close> has the same two fields and
  \<open>width\<close>, \<open>height\<close>, so that a Box can stand where a Vector is expected, as the
  source does when it hands a Box to \<open>bezierCurve\<close>. The fields \<open>x\<close> and \<open>y\<close> are
  written \<open>xc\<close> and \<open>yc\<close>. A \<open>Vector\<close> has finite coordinates; a \<open>JsVector\<close> is
  the same object with any JavaScript numbers as coordinates. The points of a lookup
  table and of a path are \<open>JsVector\<close>s, and so is \<open>previous\<close>, which the tracing
  sets to points of a path.
\<close>

record 'n coords =
  xc :: 'n
  yc :: 'n

type_synonym Vector = "real coords"

type_synonym JsVector = "jsnum coords"

record Box = "real coords" +
  width :: real
  height :: real

text \<open>A vector of finite coordinates as a vector of JavaScript numbers, and back.\<close>

definition as_js :: "Vector \<Rightarrow> JsVector" where
  "as_js v = \<lparr>xc = Fin (xc v), yc = Fin (yc v)\<rparr>"

definition finite_vector :: "JsVector \<Rightarrow> Vector option" where
  "finite_vector a =
     (case (xc a, yc a) of
        (Fin x, Fin y) \<Rightarrow> Some \<lparr>xc = x, yc = y\<rparr>
      | _ \<Rightarrow> None)"

record BoxOptions =
  paddingPercentage :: "real option"

record MoveOptions = BoxOptions +
  waitForSelector :: "real option"

record ClickOptions = MoveOptions +
  waitForClick :: "real option"

text \<open>
  The second argument of \<open>path\<close> is \<open>Box | Vector\<close>; the test \<open>isBox\<close>
  (\<open>'width' in a\<close>) is the case distinction on the constructor.
\<close>

datatype Target = PointTarget Vector | BoxTarget Box

definition isBox :: "Target \<Rightarrow> bool" where
  "isBox a = (case a of BoxTarget _ \<Rightarrow> True | PointTarget _ \<Rightarrow> False)"

definition target_width :: "Target \<Rightarrow> real option" where
  "target_width a = (case a of BoxTarget b \<Rightarrow> Some (width b) | PointTarget _ \<Rightarrow> None)"

text \<open>The \<open>{x, y}\<close> fields of a target, which is what \<open>bezierCurve\<close> reads of it.\<close>

definition target_point :: "Target \<Rightarrow> Vector" where
  "target_point a =
     (case a of PointTarget v \<Rightarrow> v | BoxTarget b \<Rightarrow> \<lparr>xc = xc b, yc = yc b\<rparr>)"

section \<open>The geometry of \<open>./math\<close>\<close>

text \<open>
  \<open>origin\<close>, \<open>direction\<close>, \<open>magnitude\<close>, \<open>bezierCurve\<close> and \<open>overshoot\<close> are
  imported from \<open>./math\<close>, which is not among the sources. The spec names the first
  three as the geometry primitives (a fixed origin, direction, magnitude) and defines the
  overshoot test by the straight-line distance between the two points.
\<close>

text \<open>Modelled from the spec: \<open>origin\<close> of \<open>./math\<close>, the fixed origin.\<close>

definition origin :: Vector where
  "origin = \<lparr>xc = 0, yc = 0\<rparr>"

text \<open>
  Modelled from the spec: \<open>direction\<close> of \<open>./math\<close>, the vector from the first point to
  the second.
\<close>

definition direction :: "Vector \<Rightarrow> Vector \<Rightarrow> Vector" where
  "direction a b = \<lparr>xc = xc b - xc a, yc = yc b - yc a\<rparr>"

text \<open>
  Modelled from the spec: \<open>magnitude\<close> of \<open>./math\<close>, the Euclidean length of a
  vector, so that \<open>magnitude (direction a b)\<close> is the straight-line distance.
\<close>

definition magnitude :: "Vector \<Rightarrow> real" where
  "magnitude a = sqrt ((xc a)\<^sup>2 + (yc a)\<^sup>2)"

text \<open>
  Modelled from the spec: the curve that \<open>bezierCurve\<close> of \<open>./math\<close> returns. A curve is
  what \<open>path\<close> uses of it: its arclength (\<open>curve.length()\<close>) and its lookup table
  (\<open>curve.getLUT(steps)\<close>), which is \<open>None\<close> when the curve has no table for that
  number of steps and the call does not return one. The engine that builds curves is a
  parameter of \<open>path\<close>.
\<close>

record Curve =
  curve_length :: real
  getLUT :: "jsnum \<Rightarrow> JsVector list option"

type_synonym engine = "JsVector \<Rightarrow> Vector \<Rightarrow> real option \<Rightarrow> Curve"

section \<open>Path synthesis\<close>

text \<open>\<open>fitts\<close>, lines 23 to 28.\<close>

definition fitts :: "real \<Rightarrow> real \<Rightarrow> jsnum" where
  "fitts distance width' =
     (let a = 0;
          b = 2;
          id = jlog2 (jadd (jdiv distance width') (Fin 1))
      in jadd (Fin a) (jmul (Fin b) id))"

text \<open>
  \<open>getRandomBoxPoint\<close>, lines 38 to 50. The two calls of \<open>Math.random()\<close> are the
  arguments \<open>r1\<close> and \<open>r2\<close>, in the order of the calls.
\<close>

definition getRandomBoxPoint ::
  "Box \<Rightarrow> 'a BoxOptions_scheme option \<Rightarrow> real \<Rightarrow> real \<Rightarrow> Vector" where
  "getRandomBoxPoint box options r1 r2 =
     (let padded =
            (case options of
               None \<Rightarrow> None
             | Some opts \<Rightarrow>
                 (case paddingPercentage opts of
                    None \<Rightarrow> None
                  | Some p \<Rightarrow> if 0 < p \<and> p < 100 then Some p else None));
          paddingWidth = (case padded of Some p \<Rightarrow> width box * p / 100 | None \<Rightarrow> 0);
          paddingHeight = (case padded of Some p \<Rightarrow> height box * p / 100 | None \<Rightarrow> 0)
      in \<lparr>xc = xc box + (paddingWidth / 2) + r1 * (width box - paddingWidth),
          yc = yc box + (paddingHeight / 2) + r2 * (height box - paddingHeight)\<rparr>)"

text \<open>
  \<open>clampPositive\<close>, lines 110 to 118. \<open>Math.max(0, elem)\<close> hands a NaN on as it is.
\<close>

definition clamp0 :: "jsnum \<Rightarrow> jsnum" where
  "clamp0 elem = jmax (Fin 0) elem"

definition clampPositive :: "JsVector list \<Rightarrow> JsVector list" where
  "clampPositive vectors = map (\<lambda>vector. \<lparr>xc = clamp0 (xc vector), yc = clamp0 (yc vector)\<rparr>) vectors"

text \<open>
  \<open>path\<close>, lines 96 to 108. The locals \<open>width\<close>, \<open>baseTime\<close> and \<open>steps\<close> are
  definitions of their own, so that statements can name them; \<open>random\<close> is the value of
  the one call of \<open>Math.random()\<close>. The result is \<open>None\<close> when the curve returns no
  lookup table.
\<close>

definition path_width :: "Target \<Rightarrow> real" where
  "path_width end' =
     (let defaultWidth = 100
      in if isBox end' then (case target_width end' of Some w \<Rightarrow> w | None \<Rightarrow> defaultWidth)
         else defaultWidth)"

definition path_baseTime :: "real \<Rightarrow> real" where
  "path_baseTime random = (let minSteps = 25 in random * minSteps)"

definition path_steps :: "Curve \<Rightarrow> real \<Rightarrow> real \<Rightarrow> jsnum" where
  "path_steps curve width' random =
     (let length' = curve_length curve * (8 / 10);
          baseTime = path_baseTime random
      in jceil (jmul (jadd (jlog2 (jadd (fitts length' width') (Fin 1))) (Fin baseTime)) (Fin 3)))"

definition path ::
  "engine \<Rightarrow> real \<Rightarrow> JsVector \<Rightarrow> Target \<Rightarrow> real option \<Rightarrow> JsVector list option" where
  "path bezierCurve random start end' spreadOverride =
     (let width' = path_width end';
          curve = bezierCurve start (target_point end') spreadOverride;
          steps = path_steps curve width' random
      in case getLUT curve steps of
           None \<Rightarrow> None
         | Some re \<Rightarrow> Some (clampPositive re))"

text \<open>\<open>shouldOvershoot\<close>, lines 120 and 121.\<close>

definition overshootThreshold :: real where
  "overshootThreshold = 500"

definition shouldOvershoot :: "Vector \<Rightarrow> Vector \<Rightarrow> bool" where
  "shouldOvershoot a b = (magnitude (direction a b) > overshootThreshold)"

text \<open>
  \<open>shouldOvershoot(previous, destination)\<close> as \<open>move\<close> calls it, line 240, where the
  coordinates of \<open>previous\<close> need not be finite: a NaN coordinate makes the magnitude NaN
  and the comparison false; without a NaN, an infinite coordinate makes the magnitude
  infinite and the comparison true.
\<close>

definition shouldOvershoot_from :: "JsVector \<Rightarrow> Vector \<Rightarrow> bool" where
  "shouldOvershoot_from a b =
     (if xc a = NaN \<or> yc a = NaN then False
      else case finite_vector a of
             Some a' \<Rightarrow> shouldOvershoot a' b
           | None \<Rightarrow> True)"

section \<open>The cursor controller\<close>

subsection \<open>State, driver and errors\<close>

text \<open>
  The closure of \<open>createCursor\<close> holds \<open>previous\<close> and \<open>moving\<close>. The state of the
  model adds what the controller does to the outside: \<open>pointer\<close> lists the positions
  that \<open>page.mouse.move\<close> has accepted, oldest first, \<open>console\<close> the lines written
  by \<open>console.log\<close>, and \<open>tick\<close> counts the calls that leave the controller (driver
  calls, random draws, calls into \<open>./math\<close>).
\<close>

record Cursor =
  previous :: JsVector
  moving :: bool
  pointer :: "JsVector list"
  console :: "string list"
  tick :: nat

text \<open>
  The two \<open>Error\<close>s that \<open>move\<close> throws, named as the spec names them, and the
  rejection of a driver call. \<open>NoReturn\<close> is no exception: it stands for a call that
  never returns, and no handler sees it.
\<close>

datatype error = TargetNotFound string | GeometryUnavailable | DriverError | NoReturn

text \<open>
  An element handle, as far as the controller reads it: \<open>_remoteObject\<close> may be
  undefined (\<open>None\<close>), and its \<open>objectId\<close> may be undefined or null. What a query of
  the page returns is a handle or an array of handles.
\<close>

datatype objectId = IdUndefined | IdNull | Id string

record ElementHandle =
  remoteObject :: "objectId option"

datatype elem = Handle ElementHandle | HandleArray "ElementHandle list"

datatype selector = Selector string | Element ElementHandle

text \<open>The first quad of \<open>DOM.getContentQuads\<close>: eight numbers.\<close>

datatype quad = Quad real real real real real real real real

text \<open>
  Everything outside the controller answers through \<open>Env\<close>; the first argument of each
  field is the tick of the call, so that two calls of one function may answer differently.
  A driver call that rejects answers \<open>None\<close>. \<open>page_query\<close> is \<open>page.$\<close> and
  \<open>page_xpath\<close> is \<open>page.$x\<close>; their inner \<open>None\<close> is \<open>null\<close>.
  \<open>interrupt\<close> tells whether, while the pointer move of that tick was pending, another
  task of the cooperative scheduler began an explicit operation, which sets \<open>moving\<close>
  at once. \<open>bezierCurve\<close> and \<open>overshoot\<close> are the functions of \<open>./math\<close>
  (modelled from the spec: a curve from start to end, and an aim point near the
  destination), with their own randomness.
\<close>

record Env =
  page_mouse_move :: "nat \<Rightarrow> unit option"
  page_mouse_down :: "nat \<Rightarrow> unit option"
  page_mouse_up :: "nat \<Rightarrow> unit option"
  page_isConnected :: "nat \<Rightarrow> bool"
  page_waitForXPath :: "nat \<Rightarrow> string \<Rightarrow> real \<Rightarrow> unit option"
  page_waitForSelector :: "nat \<Rightarrow> string \<Rightarrow> real \<Rightarrow> unit option"
  page_xpath :: "nat \<Rightarrow> string \<Rightarrow> elem option option"
  page_query :: "nat \<Rightarrow> string \<Rightarrow> elem option option"
  page_evaluate :: "nat \<Rightarrow> unit option"
  page_getContentQuads :: "nat \<Rightarrow> objectId \<Rightarrow> quad list option"
  page_getWindowForTarget :: "nat \<Rightarrow> (real \<times> real) option"
  interrupt :: "nat \<Rightarrow> bool"
  random :: "nat \<Rightarrow> real"
  bezierCurve :: "nat \<Rightarrow> engine"
  overshoot :: "nat \<Rightarrow> Vector \<Rightarrow> real \<Rightarrow> Vector"

subsection \<open>Sequencing\<close>

text \<open>
  An asynchronous function of the controller is a function from the state to a result and
  the state it leaves: \<open>Inl\<close> when it throws (the promise rejects) or never returns,
  \<open>Inr\<close> when it returns.
\<close>

type_synonym 'a action = "Cursor \<Rightarrow> (error + 'a) \<times> Cursor"

definition return :: "'a \<Rightarrow> 'a action" where
  "return a s = (Inr a, s)"

definition throw :: "error \<Rightarrow> 'a action" where
  "throw e s = (Inl e, s)"

definition bind :: "'a action \<Rightarrow> ('a \<Rightarrow> 'b action) \<Rightarrow> 'b action" where
  "bind m f s = (case m s of (Inl e, s') \<Rightarrow> (Inl e, s') | (Inr a, s') \<Rightarrow> f a s')"

text \<open>\<open>try { m } catch (error) { h }\<close>.\<close>

definition catch :: "'a action \<Rightarrow> (error \<Rightarrow> 'a action) \<Rightarrow> 'a action" where
  "catch m h s =
     (case m s of
        (Inl e, s') \<Rightarrow> if e = NoReturn then (Inl NoReturn, s') else h e s'
      | (Inr a, s') \<Rightarrow> (Inr a, s'))"

text \<open>A call that leaves the controller: it answers for the current tick.\<close>

definition await :: "(nat \<Rightarrow> 'a option) \<Rightarrow> 'a action" where
  "await f s =
     (case f (tick s) of
        None \<Rightarrow> (Inl DriverError, s\<lparr>tick := Suc (tick s)\<rparr>)
      | Some a \<Rightarrow> (Inr a, s\<lparr>tick := Suc (tick s)\<rparr>))"

definition draw :: "Env \<Rightarrow> real action" where
  "draw env = await (\<lambda>t. Some (random env t))"

definition console_log :: "string \<Rightarrow> unit action" where
  "console_log line s = (Inr (), s\<lparr>console := console s @ [line]\<rparr>)"

definition get_previous :: "JsVector action" where
  "get_previous s = (Inr (previous s), s)"

definition set_previous :: "JsVector \<Rightarrow> unit action" where
  "set_previous v s = (Inr (), s\<lparr>previous := v\<rparr>)"

definition get_moving :: "bool action" where
  "get_moving s = (Inr (moving s), s)"

text \<open>\<open>delay\<close>, line 16: time is not part of the state.\<close>

definition delay :: "real \<Rightarrow> unit action" where
  "delay ms = return ()"

text \<open>\<open>selector.includes(sub)\<close>.\<close>

fun includes_str :: "string \<Rightarrow> string \<Rightarrow> bool" where
  "includes_str [] sub = (sub = [])"
| "includes_str (c # cs) sub = (take (length sub) (c # cs) = sub \<or> includes_str cs sub)"

subsection \<open>Element geometry\<close>

text \<open>
  \<open>getRandomPagePoint\<close>, lines 53 to 57: the window bounds come from the driver, the
  box starts at the origin, and no options are given.
\<close>

definition getRandomPagePoint :: "Env \<Rightarrow> Vector action" where
  "getRandomPagePoint env =
     bind (await (page_getWindowForTarget env)) (\<lambda>(bounds_width, bounds_height).
     bind (draw env) (\<lambda>r1.
     bind (draw env) (\<lambda>r2.
       return (getRandomBoxPoint
                 \<lparr>xc = xc origin, yc = yc origin, width = bounds_width, height = bounds_height\<rparr>
                 (None :: BoxOptions option) r1 r2))))"

text \<open>
  \<open>getElementBox\<close>, lines 60 to 92, with \<open>relativeToMainFrame\<close> at its default
  \<open>true\<close>, as its one caller leaves it. An array of handles has no \<open>_remoteObject\<close>.
  Reading \<open>quads.quads[0][0]\<close> of an empty list of quads throws.
\<close>

definition getElementBox :: "Env \<Rightarrow> elem \<Rightarrow> Box option action" where
  "getElementBox env element =
     (case element of
        HandleArray _ \<Rightarrow> return None
      | Handle h \<Rightarrow>
          (case remoteObject h of
             None \<Rightarrow> return None
           | Some IdUndefined \<Rightarrow> return None
           | Some oid \<Rightarrow>
               bind (await (\<lambda>t. page_getContentQuads env t oid)) (\<lambda>quads.
                 case quads of
                   [] \<Rightarrow> throw DriverError
                 | Quad q0 q1 q2 q3 q4 q5 q6 q7 # _ \<Rightarrow>
                     return (Some \<lparr>xc = q0, yc = q1, width = q4 - q0, height = q5 - q1\<rparr>))))"

subsection \<open>Tracing\<close>

text \<open>
  The body of the loop of \<open>tracePath\<close>, lines 135 to 147, for the point \<open>v\<close>. The
  first component tells whether the loop goes on (\<open>False\<close>: the function returns).
\<close>

definition traceStep :: "Env \<Rightarrow> bool \<Rightarrow> JsVector \<Rightarrow> Cursor \<Rightarrow> bool \<times> Cursor" where
  "traceStep env abortOnMove v s =
     (if abortOnMove \<and> moving s then (False, s)
      else
        let t = tick s;
            s1 = s\<lparr>moving := moving s \<or> interrupt env t, tick := Suc t\<rparr>
        in case page_mouse_move env t of
             Some _ \<Rightarrow> (True, s1\<lparr>previous := v, pointer := pointer s1 @ [v]\<rparr>)
           | None \<Rightarrow>
               if \<not> page_isConnected env t then (False, s1)
               else (True, s1\<lparr>console := console s1 @
                                  [''Warning: could not move mouse, error message:'']\<rparr>))"

text \<open>\<open>tracePath\<close>, lines 133 to 149.\<close>

fun tracePath :: "Env \<Rightarrow> JsVector list \<Rightarrow> bool \<Rightarrow> Cursor \<Rightarrow> Cursor" where
  "tracePath env [] abortOnMove s = s"
| "tracePath env (v # vectors) abortOnMove s =
     (case traceStep env abortOnMove v s of
        (True, s') \<Rightarrow> tracePath env vectors abortOnMove s'
      | (False, s') \<Rightarrow> s')"

text \<open>As an action: no branch of \<open>tracePath\<close> throws.\<close>

definition trace :: "Env \<Rightarrow> JsVector list \<Rightarrow> bool \<Rightarrow> unit action" where
  "trace env vectors abortOnMove s = (Inr (), tracePath env vectors abortOnMove s)"

text \<open>
  A call of \<open>path\<close> from the controller, with the curve engine and the random draw of
  this tick. When \<open>path\<close> has no result the caller never goes on.
\<close>

definition plan :: "Env \<Rightarrow> JsVector \<Rightarrow> Target \<Rightarrow> real option \<Rightarrow> JsVector list action" where
  "plan env start end' spreadOverride s =
     (case path (bezierCurve env (tick s)) (random env (tick s)) start end' spreadOverride of
        None \<Rightarrow> (Inl NoReturn, s\<lparr>tick := Suc (tick s)\<rparr>)
      | Some vectors \<Rightarrow> (Inr vectors, s\<lparr>tick := Suc (tick s)\<rparr>))"

subsection \<open>The operations\<close>

text \<open>\<open>toggleRandomMove\<close>, lines 167 to 169.\<close>

definition toggleRandomMove :: "bool \<Rightarrow> unit action" where
  "toggleRandomMove random' s = (Inr (), s\<lparr>moving := \<not> random'\<rparr>)"

text \<open>
  One run of \<open>randomMove\<close>, lines 152 to 164. The result tells whether the run
  schedules the next one (line 160); the next run is a task of its own.
\<close>

definition randomMove :: "Env \<Rightarrow> bool action" where
  "randomMove env =
     catch
       (bind get_moving (\<lambda>busy.
        bind (if \<not> busy then
                bind (getRandomPagePoint env) (\<lambda>rand.
                bind get_previous (\<lambda>prev.
                bind (plan env prev (PointTarget rand) None) (\<lambda>vectors.
                bind (trace env vectors True) (\<lambda>_.
                  set_previous (as_js rand)))))
              else return ()) (\<lambda>_.
        bind (draw env) (\<lambda>r.
        bind (delay (r * 2000)) (\<lambda>_.
          return True)))))
       (\<lambda>_. bind (console_log ''Warning: stopping random mouse movements'') (\<lambda>_. return False))"

text \<open>The resolution of the selector in \<open>move\<close>, lines 194 to 218.\<close>

definition resolve :: "Env \<Rightarrow> selector \<Rightarrow> 'a MoveOptions_scheme option \<Rightarrow> elem action" where
  "resolve env selector' options =
     (let timeout = (case options of None \<Rightarrow> None | Some opts \<Rightarrow> waitForSelector opts)
      in case selector' of
           Selector str \<Rightarrow>
             bind (if includes_str str ''//'' then
                     bind (case timeout of
                             Some ms \<Rightarrow> await (\<lambda>t. page_waitForXPath env t str ms)
                           | None \<Rightarrow> return ()) (\<lambda>_.
                       await (\<lambda>t. page_xpath env t str))
                   else
                     bind (case timeout of
                             Some ms \<Rightarrow> await (\<lambda>t. page_waitForSelector env t str ms)
                           | None \<Rightarrow> return ()) (\<lambda>_.
                       await (\<lambda>t. page_query env t str))) (\<lambda>found.
               case found of
                 None \<Rightarrow> throw (TargetNotFound str)
               | Some element \<Rightarrow> return element)
         | Element h \<Rightarrow> return (Handle h))"

text \<open>Scrolling the element into view, lines 220 to 232.\<close>

definition scrollIntoView :: "Env \<Rightarrow> elem \<Rightarrow> unit action" where
  "scrollIntoView env element =
     (case element of
        HandleArray _ \<Rightarrow> return ()
      | Handle h \<Rightarrow>
          (case remoteObject h of
             None \<Rightarrow> return ()
           | Some IdUndefined \<Rightarrow> return ()
           | Some IdNull \<Rightarrow> return ()
           | Some (Id _) \<Rightarrow> await (page_evaluate env)))"

text \<open>\<open>move\<close>, lines 192 to 252.\<close>

definition move :: "Env \<Rightarrow> selector \<Rightarrow> 'a MoveOptions_scheme option \<Rightarrow> unit action" where
  "move env selector' options =
     (let overshootSpread = 10;
          overshootRadius = 120
      in
        bind (toggleRandomMove False) (\<lambda>_.
        bind (resolve env selector' options) (\<lambda>element.
        bind (scrollIntoView env element) (\<lambda>_.
        bind (getElementBox env element) (\<lambda>found.
          case found of
            None \<Rightarrow> throw GeometryUnavailable
          | Some box \<Rightarrow>
              bind (draw env) (\<lambda>r1.
              bind (draw env) (\<lambda>r2.
              let destination = getRandomBoxPoint box options r1 r2 in
              bind get_previous (\<lambda>prev.
              let overshooting = shouldOvershoot_from prev destination in
              bind (if overshooting
                    then await (\<lambda>t. Some (overshoot env t destination overshootRadius))
                    else return destination) (\<lambda>to.
              bind (plan env prev (PointTarget to) None) (\<lambda>vectors.
              bind (trace env vectors False) (\<lambda>_.
              bind (if overshooting then
                      bind (plan env (as_js to)
                              (BoxTarget \<lparr>xc = xc destination, yc = yc destination,
                                          width = width box, height = height box\<rparr>)
                              (Some overshootSpread)) (\<lambda>correction.
                        trace env correction False)
                    else return ()) (\<lambda>_.
              bind (set_previous (as_js destination)) (\<lambda>_.
                toggleRandomMove True)))))))))))))"

text \<open>\<open>click\<close>, lines 171 to 191.\<close>

definition click :: "Env \<Rightarrow> selector option \<Rightarrow> 'a ClickOptions_scheme option \<Rightarrow> unit action" where
  "click env selector' options =
     bind (toggleRandomMove False) (\<lambda>_.
     bind (case selector' of
             Some sel \<Rightarrow> bind (move env sel options) (\<lambda>_. toggleRandomMove False)
           | None \<Rightarrow> return ()) (\<lambda>_.
     bind (catch
             (bind (await (page_mouse_down env)) (\<lambda>_.
              bind (case options of
                      None \<Rightarrow> return ()
                    | Some opts \<Rightarrow>
                        (case waitForClick opts of Some ms \<Rightarrow> delay ms | None \<Rightarrow> return ())) (\<lambda>_.
                await (page_mouse_up env))))
             (\<lambda>_. console_log ''Warning: could not click mouse, error message:'')) (\<lambda>_.
     bind (draw env) (\<lambda>r.
     bind (delay (r * 2000)) (\<lambda>_.
       toggleRandomMove True)))))"

text \<open>\<open>moveTo\<close>, lines 253 to 257.\<close>

definition moveTo :: "Env \<Rightarrow> Vector \<Rightarrow> unit action" where
  "moveTo env destination =
     bind (toggleRandomMove False) (\<lambda>_.
     bind get_previous (\<lambda>prev.
     bind (plan env prev (PointTarget destination) None) (\<lambda>vectors.
     bind (trace env vectors False) (\<lambda>_.
       toggleRandomMove True))))"

text \<open>
  \<open>createCursor\<close>, lines 123 to 131: the state of a new controller. Its third
  argument, \<open>performRandomMoves\<close>, only decides whether the first run of \<open>randomMove\<close>
  is scheduled (line 261); it is no part of the state.
\<close>

definition createCursor :: "Vector \<Rightarrow> Cursor" where
  "createCursor start =
     \<lparr>previous = as_js start, moving = False, pointer = [], console = [], tick = 0\<rparr>"

section \<open>A curve engine and a page for the examples\<close>

text \<open>
  Two curve engines. \<open>chordCurve\<close> is the straight segment from start to end, as long
  as the two points are apart (0 when the start is not finite), with a lookup table of its
  two end points for every finite number of steps and none otherwise. \<open>sampledChord\<close>
  is the same segment with the lookup table of a sampler that, for a whole number of steps
  from 1 on, returns that many points, the point \<open>i\<close> at the parameter
  \<open>i / (steps - 1)\<close>: from the start to the end for two steps and more, as the spec
  describes the sampling, and a single step at \<open>0 / 0\<close>. And a page where every driver call resolves, no
  selector matches, every element has the content quad of the square from \<open>(100, 100)\<close>
  to \<open>(120, 120)\<close>, the window is 800 by 600, every random draw is one half and the
  overshoot aim is the destination itself.
\<close>

definition chord_length :: "JsVector \<Rightarrow> Vector \<Rightarrow> real" where
  "chord_length start finish =
     (case finite_vector start of
        Some start' \<Rightarrow> magnitude (direction start' finish)
      | None \<Rightarrow> 0)"

definition chordCurve :: engine where
  "chordCurve start finish spreadOverride =
     \<lparr>curve_length = chord_length start finish,
      getLUT = (\<lambda>steps. case steps of Fin _ \<Rightarrow> Some [start, as_js finish] | _ \<Rightarrow> None)\<rparr>"

definition chord_at :: "JsVector \<Rightarrow> Vector \<Rightarrow> jsnum \<Rightarrow> JsVector" where
  "chord_at start finish t =
     \<lparr>xc = jadd (jmul (jadd (Fin 1) (jmul (Fin (- 1)) t)) (xc start)) (jmul t (Fin (xc finish))),
      yc = jadd (jmul (jadd (Fin 1) (jmul (Fin (- 1)) t)) (yc start)) (jmul t (Fin (yc finish)))\<rparr>"

definition sampledChord :: engine where
  "sampledChord start finish spreadOverride =
     \<lparr>curve_length = chord_length start finish,
      getLUT = (\<lambda>steps.
        case steps of
          Fin n \<Rightarrow>
            if 1 \<le> n \<and> n = of_int \<lfloor>n\<rfloor>
            then Some (map (\<lambda>i. chord_at start finish (jdiv (real i) (n - 1))) [0..<nat \<lfloor>n\<rfloor>])
            else None
        | _ \<Rightarrow> None)\<rparr>"

definition calmPage :: Env where
  "calmPage =
     \<lparr>page_mouse_move = (\<lambda>t. Some ()),
      page_mouse_down = (\<lambda>t. Some ()),
      page_mouse_up = (\<lambda>t. Some ()),
      page_isConnected = (\<lambda>t. True),
      page_waitForXPath = (\<lambda>t str ms. Some ()),
      page_waitForSelector = (\<lambda>t str ms. Some ()),
      page_xpath = (\<lambda>t str. Some None),
      page_query = (\<lambda>t str. Some None),
      page_evaluate = (\<lambda>t. Some ()),
      page_getContentQuads = (\<lambda>t oid. Some [Quad 100 100 120 100 120 120 100 120]),
      page_getWindowForTarget = (\<lambda>t. Some (800, 600)),
      interrupt = (\<lambda>t. False),
      random = (\<lambda>t. 1 / 2),
      bezierCurve = (\<lambda>t. chordCurve),
      overshoot = (\<lambda>t destination radius. destination)\<rparr>"

section \<open>What a trace delivers\<close>

text \<open>
  The claim about a failing pointer move, in its own words: of the points of a path, a
  trace that begins at tick \<open>t\<close> on a connected page delivers those whose pointer move
  resolves, in order, skips the others, and logs one warning for each of them.
\<close>

fun delivered :: "Env \<Rightarrow> nat \<Rightarrow> JsVector list \<Rightarrow> JsVector list" where
  "delivered env t [] = []"
| "delivered env t (v # vs) =
     (if page_mouse_move env t = None then delivered env (Suc t) vs
      else v # delivered env (Suc t) vs)"

fun failures :: "Env \<Rightarrow> nat \<Rightarrow> JsVector list \<Rightarrow> nat" where
  "failures env t [] = 0"
| "failures env t (v # vs) =
     (if page_mouse_move env t = None then Suc (failures env (Suc t) vs)
      else failures env (Suc t) vs)"

text \<open>An action after which, whenever it returns, the flag \<open>moving\<close> is false.\<close>

definition idle_after :: "'a action \<Rightarrow> bool" where
  "idle_after m = (\<forall>s a s'. m s = (Inr a, s') \<longrightarrow> \<not> moving s')"

section \<open>Properties of the path synthesis\<close>

lemma ratio_pos: "0 < w \<Longrightarrow> 0 \<le> d \<Longrightarrow> 0 < d / w + (1::real)"
  by (simp add: add_nonneg_pos)

lemma fitts_fin: "w \<noteq> 0 \<Longrightarrow> 0 < d / w + 1 \<Longrightarrow> fitts d w = Fin (2 * log 2 (d / w + 1))"
  by (simp add: fitts_def jdiv_def)

lemma fitts_at_minus_width: "0 < w \<Longrightarrow> fitts (- w) w = NegInf"
  by (simp add: fitts_def jdiv_def jsign_def)

lemma ratio_pos_above: "0 < w \<Longrightarrow> - w < d \<Longrightarrow> 0 < d / w + (1::real)"
proof -
  assume w: "0 < w" and d: "- w < d"
  have "- 1 < d / w" using w d by (simp add: pos_less_divide_eq)
  then show ?thesis by linarith
qed

lemma fitts_mono_distance:
  assumes "0 < w" "- w \<le> d" "d \<le> d'"
  shows "jle (fitts d w) (fitts d' w)"
proof (cases "d = - w")
  case True
  show ?thesis
  proof (cases "d' = - w")
    case True
    with \<open>d = - w\<close> assms(1) show ?thesis by (simp add: fitts_at_minus_width)
  next
    case False
    then have "0 < d' / w + 1" using assms True by (intro ratio_pos_above) simp_all
    then show ?thesis using True assms(1) by (simp add: fitts_at_minus_width fitts_fin)
  qed
next
  case False
  then have lt: "- w < d" "- w < d'" using assms by simp_all
  have p: "0 < d / w + 1" "0 < d' / w + 1" using assms(1) lt by (simp_all add: ratio_pos_above)
  have "d / w \<le> d' / w" using assms by (simp add: divide_right_mono)
  then show ?thesis using assms p by (simp add: fitts_fin)
qed

lemma fitts_strict_distance:
  assumes "0 < w" "- w \<le> d" "d < d'"
  shows "jlt (fitts d w) (fitts d' w)"
proof (cases "d = - w")
  case True
  then have "0 < d' / w + 1" using assms by (intro ratio_pos_above) simp_all
  then show ?thesis using True assms(1) by (simp add: fitts_at_minus_width fitts_fin)
next
  case False
  then have lt: "- w < d" "- w < d'" using assms by simp_all
  have p: "0 < d / w + 1" "0 < d' / w + 1" using assms(1) lt by (simp_all add: ratio_pos_above)
  have "d / w < d' / w" using assms by (simp add: divide_strict_right_mono)
  then show ?thesis using assms p by (simp add: fitts_fin)
qed

lemma fitts_anti_width:
  assumes "0 < w" "0 \<le> d" "w \<le> w'"
  shows "jle (fitts d w') (fitts d w)"
proof -
  have p: "0 < d / w + 1" "0 < d / w' + 1" using assms by (simp_all add: ratio_pos)
  have "d / w' \<le> d / w" using assms by (simp add: divide_left_mono)
  then show ?thesis using assms p by (simp add: fitts_fin)
qed

lemma fitts_strict_width:
  assumes "0 < w" "0 < d" "w < w'"
  shows "jlt (fitts d w') (fitts d w)"
proof -
  have p: "0 < d / w + 1" "0 < d / w' + 1" using assms by (simp_all add: ratio_pos)
  have "d / w' < d / w" using assms by (simp add: divide_strict_left_mono)
  then show ?thesis using assms p by (simp add: fitts_fin)
qed

text \<open>
  Claim C9. Where the quotient is defined and the argument of the logarithm is positive,
  \<open>fitts distance width\<close> is the finite number \<open>2 * log2 (distance / width + 1)\<close>.
  For a positive width it grows with the distance, on all distances from \<open>- width\<close> on
  (below, the logarithm is NaN), and for distances from 0 on it falls as the width grows;
  both weakly along \<open><=\<close> and strictly along \<open><\<close> (strictly in the width once the
  distance is positive), in the comparisons of the program's numbers.
\<close>

theorem fitts_index_of_difficulty:
  "(w \<noteq> 0 \<and> 0 < d / w + 1 \<longrightarrow> fitts d w = Fin (2 * log 2 (d / w + 1))) \<and>
   (0 < w \<and> - w \<le> d \<and> d \<le> d' \<longrightarrow> jle (fitts d w) (fitts d' w)) \<and>
   (0 < w \<and> - w \<le> d \<and> d < d' \<longrightarrow> jlt (fitts d w) (fitts d' w)) \<and>
   (0 < w \<and> 0 \<le> d \<and> w \<le> w' \<longrightarrow> jle (fitts d w') (fitts d w)) \<and>
   (0 < w \<and> 0 < d \<and> w < w' \<longrightarrow> jlt (fitts d w') (fitts d w))"
proof (intro conjI impI)
  show "fitts d w = Fin (2 * log 2 (d / w + 1))" if "w \<noteq> 0 \<and> 0 < d / w + 1"
    using that by (simp add: fitts_fin)
  show "jle (fitts d w) (fitts d' w)" if "0 < w \<and> - w \<le> d \<and> d \<le> d'"
    using that by (simp add: fitts_mono_distance)
  show "jlt (fitts d w) (fitts d' w)" if "0 < w \<and> - w \<le> d \<and> d < d'"
    using that by (simp add: fitts_strict_distance)
  show "jle (fitts d w') (fitts d w)" if "0 < w \<and> 0 \<le> d \<and> w \<le> w'"
    using that by (simp add: fitts_anti_width)
  show "jlt (fitts d w') (fitts d w)" if "0 < w \<and> 0 < d \<and> w < w'"
    using that by (simp add: fitts_strict_width)
qed

lemma log24: "log 2 4 = 2" 
  using log_pow_cancel[of 2 2] by simp

theorem fitts_index_of_difficulty_witness:
  "fitts 3 1 = Fin 4 \<and> jle (fitts 1 1) (fitts 3 1) \<and> jlt (fitts 1 1) (fitts 3 1) \<and>
   jle (fitts 3 3) (fitts 3 1) \<and> jlt (fitts 3 3) (fitts 3 1)"
proof -
  have a: "fitts 3 1 = Fin 4 \<and> jle (fitts 3 3) (fitts 3 1) \<and> jlt (fitts 3 3) (fitts 3 1)"
    using fitts_index_of_difficulty [where w = 1 and d = 3 and d' = 3 and w' = 3]
    by (clarsimp simp add: log24)
  have b: "jle (fitts 1 1) (fitts 3 1) \<and> jlt (fitts 1 1) (fitts 3 1)"
    using fitts_index_of_difficulty [where w = 1 and d = 1 and d' = 3 and w' = 3]
    by clarsimp
  show ?thesis using a b by blast
qed

lemma grbp_padded:
  assumes "paddingPercentage opts = Some p" "0 < p" "p < 100"
  shows "getRandomBoxPoint box (Some opts) r1 r2 =
    \<lparr>xc = xc box + (width box * p / 100) / 2 + r1 * (width box - width box * p / 100),
     yc = yc box + (height box * p / 100) / 2 + r2 * (height box - height box * p / 100)\<rparr>"
  using assms by (simp add: getRandomBoxPoint_def)

lemma grbp_plain:
  assumes "options = None \<or> (\<exists>opts. options = Some opts \<and> (paddingPercentage opts = None \<or> (\<exists>p. paddingPercentage opts = Some p \<and> (p \<le> 0 \<or> 100 \<le> p))))"
  shows "getRandomBoxPoint box options r1 r2 =
    \<lparr>xc = xc box + r1 * width box, yc = yc box + r2 * height box\<rparr>"
  using assms by (auto simp add: getRandomBoxPoint_def split: option.splits)

lemma grbp_degenerate:
  assumes "width box = 0" "height box = 0"
  shows "getRandomBoxPoint box options r1 r2 = \<lparr>xc = xc box, yc = yc box\<rparr>"
  using assms by (simp add: getRandomBoxPoint_def Let_def split: option.splits)

lemma inset_bounds:
  fixes w p r x :: real
  assumes "0 \<le> w" "0 < p" "p < 100" "0 \<le> r" "r < 1"
  shows "x + p * w / 200 \<le> x + (w * p / 100) / 2 + r * (w - w * p / 100)"
    and "x + (w * p / 100) / 2 + r * (w - w * p / 100) \<le> x + w - p * w / 200"
proof -
  have k: "0 \<le> w - w * p / 100"
  proof -
    have "w * p \<le> w * 100" using assms by (intro mult_left_mono) simp_all
    then show ?thesis by simp
  qed
  have a: "0 \<le> r * (w - w * p / 100)" using assms k by (intro mult_nonneg_nonneg) simp_all
  have b: "r * (w - w * p / 100) \<le> 1 * (w - w * p / 100)" using assms k by (intro mult_right_mono) simp_all
  show "x + p * w / 200 \<le> x + (w * p / 100) / 2 + r * (w - w * p / 100)" using a by (simp add: mult.commute)
  show "x + (w * p / 100) / 2 + r * (w - w * p / 100) \<le> x + w - p * w / 200" using b by (simp add: mult.commute)
qed

lemma full_bounds:
  fixes w r x :: real
  assumes "0 \<le> w" "0 \<le> r" "r < 1"
  shows "x \<le> x + r * w" and "x + r * w \<le> x + w"
proof -
  show "x \<le> x + r * w" using assms by simp
  have "r * w \<le> 1 * w" using assms by (intro mult_right_mono) simp_all
  then show "x + r * w \<le> x + w" by simp
qed

text \<open>
  Claim C7. For a box of non-negative width and height and two random draws in \<open>[0, 1)\<close>:
  with a padding percentage \<open>p\<close> strictly between 0 and 100 the point lies in the
  rectangle inset by \<open>p * width / 200\<close> on the left and on the right and by
  \<open>p * height / 200\<close> above and below; with no options, no padding percentage, or one
  that is at most 0 or at least 100, it lies in the full rectangle; and for a box of width
  and height zero it is the corner \<open>(x, y)\<close>, whatever the options.
\<close>

theorem getRandomBoxPoint_inside:
  assumes "0 \<le> width box" "0 \<le> height box" "0 \<le> r1" "r1 < 1" "0 \<le> r2" "r2 < 1"
  shows
   "(\<forall>opts p. options = Some opts \<and> paddingPercentage opts = Some p \<and> 0 < p \<and> p < 100 \<longrightarrow>
       xc box + p * width box / 200 \<le> xc (getRandomBoxPoint box options r1 r2) \<and>
       xc (getRandomBoxPoint box options r1 r2) \<le> xc box + width box - p * width box / 200 \<and>
       yc box + p * height box / 200 \<le> yc (getRandomBoxPoint box options r1 r2) \<and>
       yc (getRandomBoxPoint box options r1 r2) \<le> yc box + height box - p * height box / 200) \<and>
    (options = None \<or>
     (\<exists>opts. options = Some opts \<and>
        (paddingPercentage opts = None \<or>
         (\<exists>p. paddingPercentage opts = Some p \<and> (p \<le> 0 \<or> 100 \<le> p)))) \<longrightarrow>
       xc box \<le> xc (getRandomBoxPoint box options r1 r2) \<and>
       xc (getRandomBoxPoint box options r1 r2) \<le> xc box + width box \<and>
       yc box \<le> yc (getRandomBoxPoint box options r1 r2) \<and>
       yc (getRandomBoxPoint box options r1 r2) \<le> yc box + height box) \<and>
    (width box = 0 \<and> height box = 0 \<longrightarrow>
       getRandomBoxPoint box options r1 r2 = \<lparr>xc = xc box, yc = yc box\<rparr>)"
proof (intro conjI allI impI)
  fix opts p
  assume h: "options = Some opts \<and> paddingPercentage opts = Some p \<and> 0 < p \<and> p < 100"
  then have e: "getRandomBoxPoint box options r1 r2 =
    \<lparr>xc = xc box + (width box * p / 100) / 2 + r1 * (width box - width box * p / 100),
     yc = yc box + (height box * p / 100) / 2 + r2 * (height box - height box * p / 100)\<rparr>"
    by (simp add: grbp_padded)
  show "xc box + p * width box / 200 \<le> xc (getRandomBoxPoint box options r1 r2)"
    unfolding e using inset_bounds(1) [of "width box" p r1 "xc box"] assms h by simp
  show "xc (getRandomBoxPoint box options r1 r2) \<le> xc box + width box - p * width box / 200"
    unfolding e using inset_bounds(2) [of "width box" p r1 "xc box"] assms h by simp
  show "yc box + p * height box / 200 \<le> yc (getRandomBoxPoint box options r1 r2)"
    unfolding e using inset_bounds(1) [of "height box" p r2 "yc box"] assms h by simp
  show "yc (getRandomBoxPoint box options r1 r2) \<le> yc box + height box - p * height box / 200"
    unfolding e using inset_bounds(2) [of "height box" p r2 "yc box"] assms h by simp
next
  assume h: "options = None \<or>
     (\<exists>opts. options = Some opts \<and>
        (paddingPercentage opts = None \<or>
         (\<exists>p. paddingPercentage opts = Some p \<and> (p \<le> 0 \<or> 100 \<le> p))))"
  have e: "getRandomBoxPoint box options r1 r2 =
    \<lparr>xc = xc box + r1 * width box, yc = yc box + r2 * height box\<rparr>"
    using h by (rule grbp_plain)
  show "xc box \<le> xc (getRandomBoxPoint box options r1 r2)"
    unfolding e using full_bounds(1) [of "width box" r1 "xc box"] assms by simp
  show "xc (getRandomBoxPoint box options r1 r2) \<le> xc box + width box"
    unfolding e using full_bounds(2) [of "width box" r1 "xc box"] assms by simp
  show "yc box \<le> yc (getRandomBoxPoint box options r1 r2)"
    unfolding e using full_bounds(1) [of "height box" r2 "yc box"] assms by simp
  show "yc (getRandomBoxPoint box options r1 r2) \<le> yc box + height box"
    unfolding e using full_bounds(2) [of "height box" r2 "yc box"] assms by simp
next
  assume "width box = 0 \<and> height box = 0"
  then show "getRandomBoxPoint box options r1 r2 = \<lparr>xc = xc box, yc = yc box\<rparr>"
    by (simp add: grbp_degenerate)
qed

theorem getRandomBoxPoint_inside_witness:
  "(105 \<le> xc (getRandomBoxPoint \<lparr>xc = 100, yc = 100, width = 20, height = 20\<rparr>
                  (Some \<lparr>paddingPercentage = Some 50\<rparr>) (1 / 2) (1 / 4)) \<and>
    xc (getRandomBoxPoint \<lparr>xc = 100, yc = 100, width = 20, height = 20\<rparr>
                  (Some \<lparr>paddingPercentage = Some 50\<rparr>) (1 / 2) (1 / 4)) \<le> 115 \<and>
    105 \<le> yc (getRandomBoxPoint \<lparr>xc = 100, yc = 100, width = 20, height = 20\<rparr>
                  (Some \<lparr>paddingPercentage = Some 50\<rparr>) (1 / 2) (1 / 4)) \<and>
    yc (getRandomBoxPoint \<lparr>xc = 100, yc = 100, width = 20, height = 20\<rparr>
                  (Some \<lparr>paddingPercentage = Some 50\<rparr>) (1 / 2) (1 / 4)) \<le> 115) \<and>
   (100 \<le> xc (getRandomBoxPoint \<lparr>xc = 100, yc = 100, width = 20, height = 20\<rparr>
                  (Some \<lparr>paddingPercentage = Some 100\<rparr>) (1 / 2) (1 / 4)) \<and>
    xc (getRandomBoxPoint \<lparr>xc = 100, yc = 100, width = 20, height = 20\<rparr>
                  (Some \<lparr>paddingPercentage = Some 100\<rparr>) (1 / 2) (1 / 4)) \<le> 120 \<and>
    100 \<le> yc (getRandomBoxPoint \<lparr>xc = 100, yc = 100, width = 20, height = 20\<rparr>
                  (Some \<lparr>paddingPercentage = Some 100\<rparr>) (1 / 2) (1 / 4)) \<and>
    yc (getRandomBoxPoint \<lparr>xc = 100, yc = 100, width = 20, height = 20\<rparr>
                  (Some \<lparr>paddingPercentage = Some 100\<rparr>) (1 / 2) (1 / 4)) \<le> 120) \<and>
   getRandomBoxPoint \<lparr>xc = 7, yc = 9, width = 0, height = 0\<rparr>
      (None :: BoxOptions option) (1 / 2) (1 / 4) = \<lparr>xc = 7, yc = 9\<rparr>"
  using
    getRandomBoxPoint_inside [of "\<lparr>xc = 100, yc = 100, width = 20, height = 20\<rparr>" "1 / 2" "1 / 4"
      "Some \<lparr>paddingPercentage = Some 50\<rparr>"]
    getRandomBoxPoint_inside [of "\<lparr>xc = 100, yc = 100, width = 20, height = 20\<rparr>" "1 / 2" "1 / 4"
      "Some \<lparr>paddingPercentage = Some 100\<rparr>"]
    getRandomBoxPoint_inside [of "\<lparr>xc = 7, yc = 9, width = 0, height = 0\<rparr>" "1 / 2" "1 / 4"
      "None :: BoxOptions option"]
  by simp

lemma clamp0_not_negative: "\<not> jlt (clamp0 c) (Fin 0)"
  by (cases c) (simp_all add: clamp0_def)

lemma clamp0_nonneg: "c \<noteq> NaN \<Longrightarrow> jle (Fin 0) (clamp0 c)"
  by (cases c) (simp_all add: clamp0_def)

lemma clamp0_NaN: "clamp0 NaN = NaN"
  by (simp add: clamp0_def)

lemma path_Some:
  "path bz r start end' spreadOverride = Some vectors \<longleftrightarrow>
     (\<exists>re. getLUT (bz start (target_point end') spreadOverride)
             (path_steps (bz start (target_point end') spreadOverride) (path_width end') r) = Some re \<and>
           vectors = clampPositive re)"
  by (auto simp add: path_def Let_def split: option.splits)

text \<open>
  What \<open>clampPositive\<close> does give: a sequence that \<open>path\<close> returns is the lookup table
  of the curve with \<open>Math.max(0, .)\<close> applied to each coordinate, so no coordinate of it
  is below 0, and a coordinate is at least 0 whenever the sampled coordinate is a number.
\<close>

lemma path_not_negative:
  assumes "path bz r start end' spreadOverride = Some vectors"
  shows "\<exists>re. getLUT (bz start (target_point end') spreadOverride)
             (path_steps (bz start (target_point end') spreadOverride) (path_width end') r) = Some re \<and>
           vectors = map (\<lambda>v. \<lparr>xc = clamp0 (xc v), yc = clamp0 (yc v)\<rparr>) re \<and>
           (\<forall>v \<in> set vectors. \<not> jlt (xc v) (Fin 0) \<and> \<not> jlt (yc v) (Fin 0)) \<and>
           ((\<forall>v \<in> set re. xc v \<noteq> NaN \<and> yc v \<noteq> NaN) \<longrightarrow>
              (\<forall>v \<in> set vectors. jle (Fin 0) (xc v) \<and> jle (Fin 0) (yc v)))"
proof -
  obtain re where re:
    "getLUT (bz start (target_point end') spreadOverride)
       (path_steps (bz start (target_point end') spreadOverride) (path_width end') r) = Some re"
    "vectors = clampPositive re"
    using assms path_Some by blast
  have m: "vectors = map (\<lambda>v. \<lparr>xc = clamp0 (xc v), yc = clamp0 (yc v)\<rparr>) re"
    using re(2) by (simp add: clampPositive_def)
  have a: "\<forall>v \<in> set vectors. \<not> jlt (xc v) (Fin 0) \<and> \<not> jlt (yc v) (Fin 0)"
    unfolding m by (auto simp add: clamp0_not_negative)
  have b: "\<forall>v \<in> set vectors. jle (Fin 0) (xc v) \<and> jle (Fin 0) (yc v)"
    if "\<forall>v \<in> set re. xc v \<noteq> NaN \<and> yc v \<noteq> NaN"
    unfolding m using that by (auto simp add: clamp0_nonneg)
  show ?thesis using re(1) m a b by blast
qed

lemma fitts_nonneg:
  assumes "0 < w" "0 \<le> d"
  shows "fitts d w = Fin (2 * log 2 (d / w + 1))" and "0 \<le> 2 * log 2 (d / w + 1)"
proof -
  have p: "1 \<le> d / w + 1" using assms by simp
  then have "0 < d / w + 1" by linarith
  then show "fitts d w = Fin (2 * log 2 (d / w + 1))" using assms by (simp add: fitts_fin)
  have "0 \<le> log 2 (d / w + 1)" using p by simp
  then show "0 \<le> 2 * log 2 (d / w + 1)" by simp
qed

lemma path_steps_fin:
  assumes "0 < w" "0 \<le> curve_length c"
  shows "path_steps c w r =
     Fin (of_int \<lceil>(log 2 (2 * log 2 (curve_length c * (8 / 10) / w + 1) + 1) + r * 25) * 3\<rceil>)"
proof -
  have l: "0 \<le> curve_length c * (8 / 10)" using assms by simp
  have f: "fitts (curve_length c * (8 / 10)) w = Fin (2 * log 2 (curve_length c * (8 / 10) / w + 1))"
    using assms(1) l by (rule fitts_nonneg(1))
  have n: "0 \<le> 2 * log 2 (curve_length c * (8 / 10) / w + 1)"
    using assms(1) l by (rule fitts_nonneg(2))
  then have "0 < 2 * log 2 (curve_length c * (8 / 10) / w + 1) + 1" by linarith
  then show ?thesis unfolding path_steps_def Let_def f path_baseTime_def by simp
qed

lemma chord_length_nonneg: "0 \<le> chord_length start finish"
  by (simp add: chord_length_def magnitude_def split: option.splits)

lemma path_chord:
  "path chordCurve r start (PointTarget v) spreadOverride = Some (clampPositive [start, as_js v])"
proof -
  have "0 \<le> curve_length (chordCurve start v spreadOverride)"
    by (simp add: chordCurve_def chord_length_nonneg)
  then have "\<exists>n. path_steps (chordCurve start v spreadOverride) 100 r = Fin n"
    using path_steps_fin [of 100 "chordCurve start v spreadOverride" r] by simp
  then show ?thesis
    by (auto simp add: path_def Let_def path_width_def isBox_def target_point_def chordCurve_def)
qed

text \<open>
  Claim C6, where it fails. For a move from \<open>(5, 5)\<close> to \<open>(5, 5)\<close> with the random
  draw \<open>1 / 100\<close> the step count of \<open>path\<close> is 1, since nothing bounds it from below.
  A curve that samples the point \<open>i\<close> at the parameter \<open>i / (steps - 1)\<close> samples its
  one point at \<open>0 / 0\<close>, so the coordinates of the point are NaN; \<open>Math.max(0, NaN)\<close> is
  NaN, and \<open>path\<close> returns a point whose coordinates are not at least 0.
\<close>

theorem path_single_step_nan:
  "path_steps (sampledChord \<lparr>xc = Fin 5, yc = Fin 5\<rparr> \<lparr>xc = 5, yc = 5\<rparr> None)
     (path_width (PointTarget \<lparr>xc = 5, yc = 5\<rparr>)) (1 / 100) = Fin 1 \<and>
   path sampledChord (1 / 100) \<lparr>xc = Fin 5, yc = Fin 5\<rparr> (PointTarget \<lparr>xc = 5, yc = 5\<rparr>) None =
     Some [\<lparr>xc = NaN, yc = NaN\<rparr>] \<and>
   clamp0 NaN = NaN \<and>
   \<not> jle (Fin 0) NaN"
proof -
  have l: "curve_length (sampledChord \<lparr>xc = Fin 5, yc = Fin 5\<rparr> \<lparr>xc = 5, yc = 5\<rparr> None) = 0"
    by (simp add: sampledChord_def chord_length_def finite_vector_def magnitude_def direction_def)
  have s: "path_steps (sampledChord \<lparr>xc = Fin 5, yc = Fin 5\<rparr> \<lparr>xc = 5, yc = 5\<rparr> None) 100 (1 / 100) =
      Fin 1"
    using path_steps_fin [of 100 "sampledChord \<lparr>xc = Fin 5, yc = Fin 5\<rparr> \<lparr>xc = 5, yc = 5\<rparr> None"
        "1 / 100"]
    by (simp add: l)
  have w: "path_width (PointTarget \<lparr>xc = 5, yc = 5\<rparr>) = 100"
    by (simp add: path_width_def isBox_def)
  have g: "getLUT (sampledChord \<lparr>xc = Fin 5, yc = Fin 5\<rparr> \<lparr>xc = 5, yc = 5\<rparr> None) (Fin 1) =
      Some [\<lparr>xc = NaN, yc = NaN\<rparr>]"
    by (simp add: sampledChord_def chord_at_def jdiv_def)
  have p: "path sampledChord (1 / 100) \<lparr>xc = Fin 5, yc = Fin 5\<rparr> (PointTarget \<lparr>xc = 5, yc = 5\<rparr>) None =
     Some [\<lparr>xc = NaN, yc = NaN\<rparr>]"
    by (simp add: path_def Let_def w s g target_point_def clampPositive_def clamp0_NaN)
  show ?thesis using s w p by (simp add: clamp0_NaN)
qed

text \<open>
  Claim C5. \<open>shouldOvershoot a b\<close> holds exactly when the Euclidean distance between
  \<open>a\<close> and \<open>b\<close> is strictly greater than 500; at a distance of exactly 500 it does
  not hold.
\<close>

theorem shouldOvershoot_threshold:
  "(shouldOvershoot a b \<longleftrightarrow> 500 < sqrt ((xc b - xc a)\<^sup>2 + (yc b - yc a)\<^sup>2)) \<and>
   (sqrt ((xc b - xc a)\<^sup>2 + (yc b - yc a)\<^sup>2) = 500 \<longrightarrow> \<not> shouldOvershoot a b)"
  by (simp add: shouldOvershoot_def overshootThreshold_def magnitude_def direction_def)

lemma shouldOvershoot_squares:
  "shouldOvershoot a b \<longleftrightarrow> 250000 < (xc b - xc a)\<^sup>2 + (yc b - yc a)\<^sup>2"
proof -
  have "500 < sqrt x \<longleftrightarrow> 250000 < x" for x :: real
    using real_sqrt_less_iff [of 250000 x] real_sqrt_abs [of 500] by simp
  then show ?thesis
    by (simp add: shouldOvershoot_def overshootThreshold_def magnitude_def direction_def)
qed

lemma sqrt_500: "sqrt 250000 = 500"
  using real_sqrt_abs [of 500] by simp

lemma sqrt_600: "sqrt 360000 = 600"
  using real_sqrt_abs [of 600] by simp

lemma shouldOvershoot_from_finite: "shouldOvershoot_from (as_js a) b = shouldOvershoot a b"
  by (cases a) (simp add: shouldOvershoot_from_def as_js_def finite_vector_def)

theorem shouldOvershoot_threshold_witness:
  "sqrt ((300 - 0)\<^sup>2 + (400 - 0)\<^sup>2) = 500 \<and>
   \<not> shouldOvershoot \<lparr>xc = 0, yc = 0\<rparr> \<lparr>xc = 300, yc = 400\<rparr> \<and>
   shouldOvershoot \<lparr>xc = 0, yc = 0\<rparr> \<lparr>xc = 600, yc = 0\<rparr>"
  using shouldOvershoot_threshold [of "\<lparr>xc = 0, yc = 0\<rparr>" "\<lparr>xc = 300, yc = 400\<rparr>"]
    shouldOvershoot_threshold [of "\<lparr>xc = 0, yc = 0\<rparr>" "\<lparr>xc = 600, yc = 0\<rparr>"]
  by (simp add: sqrt_500 sqrt_600)

text \<open>
  Claim C4. \<open>path\<close> returns the clamped lookup table that the curve returns at
  \<open>steps = ceil ((log2 (fitts (length, width) + 1) + baseTime) * 3)\<close>, where the length
  is the arclength of the curve times 0.8, the width is that of the target when it is a
  Box and 100 otherwise, and \<open>baseTime\<close> is the random draw times 25, hence in
  \<open>[0, 25)\<close> for a draw in \<open>[0, 1)\<close>. For a positive width and a non-negative
  arclength all intermediate values are finite and the step count is the integer given by
  the formula over the reals.
\<close>

theorem path_step_count:
  "path bz r start end' spreadOverride =
     map_option clampPositive (getLUT (bz start (target_point end') spreadOverride)
        (path_steps (bz start (target_point end') spreadOverride) (path_width end') r)) \<and>
   path_width (BoxTarget b) = width b \<and>
   path_width (PointTarget v) = 100 \<and>
   path_steps c w r =
     jceil (jmul (jadd (jlog2 (jadd (fitts (curve_length c * (8 / 10)) w) (Fin 1)))
                       (Fin (path_baseTime r))) (Fin 3)) \<and>
   path_baseTime r = r * 25 \<and>
   (0 \<le> r \<and> r < 1 \<longrightarrow> 0 \<le> path_baseTime r \<and> path_baseTime r < 25) \<and>
   (0 < w \<and> 0 \<le> curve_length c \<longrightarrow>
      path_steps c w r =
        Fin (of_int \<lceil>(log 2 (2 * log 2 (curve_length c * (8 / 10) / w + 1) + 1) + r * 25) * 3\<rceil>))"
proof (intro conjI impI)
  show "path bz r start end' spreadOverride =
     map_option clampPositive (getLUT (bz start (target_point end') spreadOverride)
        (path_steps (bz start (target_point end') spreadOverride) (path_width end') r))"
    by (simp add: path_def Let_def split: option.splits)
  show "path_width (BoxTarget b) = width b"
    by (simp add: path_width_def isBox_def target_width_def)
  show "path_width (PointTarget v) = 100"
    by (simp add: path_width_def isBox_def)
  show "path_steps c w r =
     jceil (jmul (jadd (jlog2 (jadd (fitts (curve_length c * (8 / 10)) w) (Fin 1)))
                       (Fin (path_baseTime r))) (Fin 3))"
    by (simp add: path_steps_def Let_def)
  show "path_baseTime r = r * 25" by (simp add: path_baseTime_def)
  show "0 \<le> path_baseTime r" if "0 \<le> r \<and> r < 1" using that by (simp add: path_baseTime_def)
  show "path_baseTime r < 25" if "0 \<le> r \<and> r < 1" using that by (simp add: path_baseTime_def)
  show "path_steps c w r =
        Fin (of_int \<lceil>(log 2 (2 * log 2 (curve_length c * (8 / 10) / w + 1) + 1) + r * 25) * 3\<rceil>)"
    if "0 < w \<and> 0 \<le> curve_length c" using that by (simp add: path_steps_fin)
qed

theorem path_step_count_witness:
  "0 \<le> path_baseTime (1 / 5) \<and> path_baseTime (1 / 5) < 25 \<and>
   path_steps (chordCurve \<lparr>xc = Fin 3, yc = Fin 4\<rparr> \<lparr>xc = 3, yc = 4\<rparr> None)
     (path_width (PointTarget \<lparr>xc = 3, yc = 4\<rparr>)) (1 / 5) = Fin 15"
proof -
  have l: "curve_length (chordCurve \<lparr>xc = Fin 3, yc = Fin 4\<rparr> \<lparr>xc = 3, yc = 4\<rparr> None) = 0"
    by (simp add: chordCurve_def chord_length_def finite_vector_def magnitude_def direction_def)
  show ?thesis
    using path_step_count [where r = "1 / 5" and w = 100
        and c = "chordCurve \<lparr>xc = Fin 3, yc = Fin 4\<rparr> \<lparr>xc = 3, yc = 4\<rparr> None"
        and v = "\<lparr>xc = 3, yc = 4\<rparr>" and bz = chordCurve and start = "\<lparr>xc = Fin 3, yc = Fin 4\<rparr>"
        and end' = "PointTarget \<lparr>xc = 3, yc = 4\<rparr>" and spreadOverride = None
        and b = "\<lparr>xc = 3, yc = 4, width = 1, height = 1\<rparr>"]
    by (clarsimp simp add: l)
qed

lemma path_steps_zero_width:
  assumes "0 < curve_length c"
  shows "path_steps c 0 r = PosInf"
  using assms by (simp add: path_steps_def fitts_def jdiv_def jsign_def Let_def)

text \<open>
  Claim C3, where it fails. For a Box of width 0 as the target and a curve of positive
  length, \<open>path\<close> divides the length by the width 0, so its step count is \<open>PosInf\<close>
  and it asks the curve for a lookup table of infinitely many steps; with a curve that has
  no such table, \<open>path\<close> returns no sequence.
\<close>

theorem path_zero_width_box:
  "width b = 0 \<and> 0 < curve_length (bz start (target_point (BoxTarget b)) spreadOverride) \<longrightarrow>
     path_steps (bz start (target_point (BoxTarget b)) spreadOverride)
       (path_width (BoxTarget b)) r = PosInf \<and>
     (getLUT (bz start (target_point (BoxTarget b)) spreadOverride) PosInf = None \<longrightarrow>
        path bz r start (BoxTarget b) spreadOverride = None)"
proof (intro impI conjI)
  assume h: "width b = 0 \<and> 0 < curve_length (bz start (target_point (BoxTarget b)) spreadOverride)"
  then show s: "path_steps (bz start (target_point (BoxTarget b)) spreadOverride)
       (path_width (BoxTarget b)) r = PosInf"
    by (simp add: path_steps_zero_width path_width_def isBox_def target_width_def)
  show "path bz r start (BoxTarget b) spreadOverride = None"
    if "getLUT (bz start (target_point (BoxTarget b)) spreadOverride) PosInf = None"
    using that s by (simp add: path_def Let_def)
qed

theorem path_zero_width_box_witness:
  "path_steps (chordCurve \<lparr>xc = Fin 0, yc = Fin 0\<rparr>
                 (target_point (BoxTarget \<lparr>xc = 600, yc = 0, width = 0, height = 0\<rparr>)) (Some 10))
     (path_width (BoxTarget \<lparr>xc = 600, yc = 0, width = 0, height = 0\<rparr>)) (1 / 2) = PosInf \<and>
   path chordCurve (1 / 2) \<lparr>xc = Fin 0, yc = Fin 0\<rparr>
     (BoxTarget \<lparr>xc = 600, yc = 0, width = 0, height = 0\<rparr>) (Some 10) = None"
  using path_zero_width_box
    [of "\<lparr>xc = 600, yc = 0, width = 0, height = 0\<rparr>" chordCurve "\<lparr>xc = Fin 0, yc = Fin 0\<rparr>" "Some 10" "1 / 2"]
  by (simp add: chordCurve_def chord_length_def finite_vector_def magnitude_def direction_def
      target_point_def)

text \<open>
  When the lookup table that the curve returns has at least two points, begins at the start
  and ends at the point of the target, the path has as many points, and begins and ends at
  the clamped start and the clamped point of the target.
\<close>

lemma path_ends:
  assumes "getLUT (bz start (target_point end') so)
             (path_steps (bz start (target_point end') so) (path_width end') r) = Some lut"
    and "2 \<le> length lut" "hd lut = start" "last lut = as_js (target_point end')"
  shows "\<exists>vectors. path bz r start end' so = Some vectors \<and> 2 \<le> length vectors \<and>
           hd vectors = \<lparr>xc = clamp0 (xc start), yc = clamp0 (yc start)\<rparr> \<and>
           last vectors =
             \<lparr>xc = clamp0 (Fin (xc (target_point end'))),
              yc = clamp0 (Fin (yc (target_point end')))\<rparr>"
proof -
  have p: "path bz r start end' so = Some (clampPositive lut)"
    using assms(1) by (simp add: path_def Let_def)
  have ne: "lut \<noteq> []" using assms(2) by auto
  have "2 \<le> length (clampPositive lut)" using assms(2) by (simp add: clampPositive_def)
  moreover have "hd (clampPositive lut) = \<lparr>xc = clamp0 (xc start), yc = clamp0 (yc start)\<rparr>"
    using ne assms(3) by (simp add: clampPositive_def hd_map)
  moreover have "last (clampPositive lut) =
           \<lparr>xc = clamp0 (Fin (xc (target_point end'))),
              yc = clamp0 (Fin (yc (target_point end')))\<rparr>"
    using ne assms(4) by (simp add: clampPositive_def last_map as_js_def)
  ultimately show ?thesis using p by simp
qed

section \<open>Properties of the cursor controller\<close>

lemma bind_return [simp]: "bind (return a) f s = f a s"
  by (simp add: bind_def return_def)

lemma bind_throw [simp]: "bind (throw e) f s = (Inl e, s)"
  by (simp add: bind_def throw_def)

lemma bind_toggle [simp]: "bind (toggleRandomMove b) f s = f () (s\<lparr>moving := \<not> b\<rparr>)"
  by (simp add: bind_def toggleRandomMove_def)

lemma bind_await [simp]:
  "bind (await g) f s =
     (case g (tick s) of
        None \<Rightarrow> (Inl DriverError, s\<lparr>tick := Suc (tick s)\<rparr>)
      | Some a \<Rightarrow> f a (s\<lparr>tick := Suc (tick s)\<rparr>))"
  by (simp add: bind_def await_def split: option.splits)

lemma bind_get_previous [simp]: "bind get_previous f s = f (previous s) s"
  by (simp add: bind_def get_previous_def)

lemma bind_set_previous [simp]: "bind (set_previous v) f s = f () (s\<lparr>previous := v\<rparr>)"
  by (simp add: bind_def set_previous_def)

lemma bind_get_moving [simp]: "bind get_moving f s = f (moving s) s"
  by (simp add: bind_def get_moving_def)

lemma bind_trace [simp]: "bind (trace env vs a) f s = f () (tracePath env vs a s)"
  by (simp add: bind_def trace_def)

lemma bind_console_log [simp]: "bind (console_log l) f s = f () (s\<lparr>console := console s @ [l]\<rparr>)"
  by (simp add: bind_def console_log_def)

lemma bind_delay [simp]: "bind (delay ms) f s = f () s"
  by (simp add: delay_def)

lemma bind_draw [simp]: "bind (draw env) f s = f (random env (tick s)) (s\<lparr>tick := Suc (tick s)\<rparr>)"
  by (simp add: draw_def)

lemma bind_plan [simp]:
  "bind (plan env start end' so) f s =
     (case path (bezierCurve env (tick s)) (random env (tick s)) start end' so of
        None \<Rightarrow> (Inl NoReturn, s\<lparr>tick := Suc (tick s)\<rparr>)
      | Some vectors \<Rightarrow> f vectors (s\<lparr>tick := Suc (tick s)\<rparr>))"
  by (simp add: bind_def plan_def split: option.splits)

lemma bind_assoc: "bind (bind m f) g = bind m (\<lambda>a. bind (f a) g)"
  by (auto simp add: bind_def fun_eq_iff split: prod.splits sum.splits)

lemma bind_failed: "m s = (Inl e, s') \<Longrightarrow> bind m f s = (Inl e, s')"
  by (simp add: bind_def)

lemma move_fails_in_resolve:
  assumes "resolve env selector' options (s\<lparr>moving := True\<rparr>) = (Inl e, s')"
  shows "move env selector' options s = (Inl e, s')"
  using assms by (simp add: move_def bind_failed)

lemma click_fails_in_move:
  assumes "move env sel options (s\<lparr>moving := True\<rparr>) = (Inl e, s')"
  shows "click env (Some sel) options s = (Inl e, s')"
  using assms by (simp add: click_def bind_failed bind_assoc)

text \<open>
  Claim C1, as the code has it. When the selector is a string, every wait that the caller
  asked for resolves, and the query of the page (\<open>page.$x\<close> for a selector that contains
  \<open>//\<close>, \<open>page.$\<close> otherwise) answers \<open>null\<close>, then \<open>move\<close>, and \<open>click\<close>
  with that selector, throw \<open>TargetNotFound\<close>; the state they leave has \<open>moving\<close>
  true (the flag set on entry is not cleared), and \<open>previous\<close>, the pointer and the
  console as they were.
\<close>

theorem move_target_not_found:
  assumes "(case options of None \<Rightarrow> None | Some opts \<Rightarrow> waitForSelector opts) = timeout"
    and "(case click_options of None \<Rightarrow> None | Some opts \<Rightarrow> waitForSelector opts) = timeout"
    and "\<forall>ms. timeout = Some ms \<longrightarrow>
           (if includes_str str ''//'' then page_waitForXPath env (tick s) str ms
            else page_waitForSelector env (tick s) str ms) = Some ()"
    and "(if includes_str str ''//'' then page_xpath env else page_query env)
           (if timeout = None then tick s else Suc (tick s)) str = Some None"
  shows "move env (Selector str) options s =
           (Inl (TargetNotFound str),
            s\<lparr>moving := True, tick := Suc (if timeout = None then tick s else Suc (tick s))\<rparr>) \<and>
         click env (Some (Selector str)) click_options s =
           (Inl (TargetNotFound str),
            s\<lparr>moving := True, tick := Suc (if timeout = None then tick s else Suc (tick s))\<rparr>)"
proof -
  let ?s' = "s\<lparr>moving := True, tick := Suc (if timeout = None then tick s else Suc (tick s))\<rparr>"
  have r: "resolve env (Selector str) opts (s\<lparr>moving := True\<rparr>) = (Inl (TargetNotFound str), ?s')"
    if "(case opts of None \<Rightarrow> None | Some x \<Rightarrow> waitForSelector x) = timeout"
    for opts :: "'c MoveOptions_scheme option"
    using that assms(3,4)
    by (cases timeout) (auto simp add: resolve_def bind_assoc Let_def throw_def split: if_splits)
  have m: "move env (Selector str) options s = (Inl (TargetNotFound str), ?s')"
    using r [OF assms(1)] by (rule move_fails_in_resolve)
  have "move env (Selector str) click_options (s\<lparr>moving := True\<rparr>) = (Inl (TargetNotFound str), ?s')"
    using r [OF assms(2)] by (simp add: move_def bind_failed)
  then have c: "click env (Some (Selector str)) click_options s = (Inl (TargetNotFound str), ?s')"
    by (rule click_fails_in_move)
  show ?thesis using m c by simp
qed

text \<open>
  Claim C1 as stated fails: on a page where no selector matches, \<open>move\<close> on a new
  controller throws \<open>TargetNotFound\<close> and leaves \<open>moving\<close> true.
\<close>

theorem move_target_not_found_busy:
  "fst (move calmPage (Selector ''#missing'') (None :: MoveOptions option) (createCursor origin)) =
     Inl (TargetNotFound ''#missing'') \<and>
   moving (snd (move calmPage (Selector ''#missing'') (None :: MoveOptions option) (createCursor origin)))"
  by (simp add: move_def resolve_def calmPage_def createCursor_def as_js_def bind_assoc)

theorem move_target_not_found_witness:
  "move calmPage (Selector ''#missing'')
     (Some \<lparr>paddingPercentage = None, waitForSelector = Some 0\<rparr>) (createCursor origin) =
     (Inl (TargetNotFound ''#missing''), (createCursor origin)\<lparr>moving := True, tick := 2\<rparr>) \<and>
   click calmPage (Some (Selector ''#missing''))
     (Some \<lparr>paddingPercentage = None, waitForSelector = Some 0, waitForClick = None\<rparr>)
     (createCursor origin) =
     (Inl (TargetNotFound ''#missing''), (createCursor origin)\<lparr>moving := True, tick := 2\<rparr>)"
  using move_target_not_found
    [of "Some \<lparr>paddingPercentage = None, waitForSelector = Some 0\<rparr>" "Some 0"
        "Some \<lparr>paddingPercentage = None, waitForSelector = Some 0, waitForClick = None\<rparr>"
        "''#missing''" calmPage "createCursor origin"]
  by (simp add: calmPage_def createCursor_def as_js_def)

lemma traceStep_failed_connected:
  assumes "\<not> (abortOnMove \<and> moving s)" "page_mouse_move env (tick s) = None"
    "page_isConnected env (tick s)"
  shows "traceStep env abortOnMove v s =
     (True, s\<lparr>moving := moving s \<or> interrupt env (tick s), tick := Suc (tick s),
              console := console s @ [''Warning: could not move mouse, error message:'']\<rparr>)"
  using assms by (auto simp add: traceStep_def Let_def)

lemma traceStep_failed_disconnected:
  assumes "\<not> (abortOnMove \<and> moving s)" "page_mouse_move env (tick s) = None"
    "\<not> page_isConnected env (tick s)"
  shows "traceStep env abortOnMove v s =
     (False, s\<lparr>moving := moving s \<or> interrupt env (tick s), tick := Suc (tick s)\<rparr>)"
  using assms by (auto simp add: traceStep_def Let_def)

lemma traceStep_moved:
  assumes "\<not> (abortOnMove \<and> moving s)" "page_mouse_move env (tick s) = Some u"
  shows "traceStep env abortOnMove v s =
     (True, s\<lparr>moving := moving s \<or> interrupt env (tick s), tick := Suc (tick s),
              previous := v, pointer := pointer s @ [v]\<rparr>)"
  using assms by (auto simp add: traceStep_def Let_def)

lemma tracePath_connected:
  assumes "\<forall>t. page_isConnected env t"
  shows "pointer (tracePath env vs False s) = pointer s @ delivered env (tick s) vs \<and>
         length (console (tracePath env vs False s)) = length (console s) + failures env (tick s) vs \<and>
         tick (tracePath env vs False s) = tick s + length vs"
proof (induction vs arbitrary: s)
  case Nil
  show ?case by simp
next
  case (Cons v vs)
  show ?case
  proof (cases "page_mouse_move env (tick s)")
    case None
    then have "traceStep env False v s =
     (True, s\<lparr>moving := moving s \<or> interrupt env (tick s), tick := Suc (tick s),
              console := console s @ [''Warning: could not move mouse, error message:'']\<rparr>)"
      using assms by (simp add: traceStep_failed_connected)
    then show ?thesis using None Cons.IH by simp
  next
    case (Some u)
    then have "traceStep env False v s =
     (True, s\<lparr>moving := moving s \<or> interrupt env (tick s), tick := Suc (tick s),
              previous := v, pointer := pointer s @ [v]\<rparr>)"
      by (simp add: traceStep_moved)
    then show ?thesis using Some Cons.IH by simp
  qed
qed

text \<open>
  Claim C8. When the pointer move for a point rejects and the browser is connected,
  \<open>tracePath\<close> logs the warning and goes on with the remaining points from the state it
  had, one tick later; when the browser is not connected it returns at once, with nothing
  logged. On a page that stays connected a trace that cannot be preempted attempts every
  point, delivers exactly the points whose move resolved, in order, and logs one warning
  for each of the others. In no case does \<open>tracePath\<close> throw.
\<close>

theorem tracePath_failed_move:
  "(\<not> (abortOnMove \<and> moving s) \<and> page_mouse_move env (tick s) = None \<and>
    page_isConnected env (tick s) \<longrightarrow>
      tracePath env (v # vectors) abortOnMove s =
        tracePath env vectors abortOnMove
          (s\<lparr>moving := moving s \<or> interrupt env (tick s), tick := Suc (tick s),
             console := console s @ [''Warning: could not move mouse, error message:'']\<rparr>)) \<and>
   (\<not> (abortOnMove \<and> moving s) \<and> page_mouse_move env (tick s) = None \<and>
    \<not> page_isConnected env (tick s) \<longrightarrow>
      tracePath env (v # vectors) abortOnMove s =
        s\<lparr>moving := moving s \<or> interrupt env (tick s), tick := Suc (tick s)\<rparr>) \<and>
   ((\<forall>t. page_isConnected env t) \<longrightarrow>
      pointer (tracePath env vectors False s) = pointer s @ delivered env (tick s) vectors \<and>
      length (console (tracePath env vectors False s)) =
        length (console s) + failures env (tick s) vectors \<and>
      tick (tracePath env vectors False s) = tick s + length vectors) \<and>
   fst (trace env vectors abortOnMove s) = Inr ()"
proof (intro conjI impI)
  show "tracePath env (v # vectors) abortOnMove s =
        tracePath env vectors abortOnMove
          (s\<lparr>moving := moving s \<or> interrupt env (tick s), tick := Suc (tick s),
             console := console s @ [''Warning: could not move mouse, error message:'']\<rparr>)"
    if "\<not> (abortOnMove \<and> moving s) \<and> page_mouse_move env (tick s) = None \<and>
        page_isConnected env (tick s)"
    using that by (simp add: traceStep_failed_connected)
  show "tracePath env (v # vectors) abortOnMove s =
        s\<lparr>moving := moving s \<or> interrupt env (tick s), tick := Suc (tick s)\<rparr>"
    if "\<not> (abortOnMove \<and> moving s) \<and> page_mouse_move env (tick s) = None \<and>
        \<not> page_isConnected env (tick s)"
    using that by (simp add: traceStep_failed_disconnected)
  show "pointer (tracePath env vectors False s) = pointer s @ delivered env (tick s) vectors"
    if "\<forall>t. page_isConnected env t" using that tracePath_connected by blast
  show "length (console (tracePath env vectors False s)) =
        length (console s) + failures env (tick s) vectors"
    if "\<forall>t. page_isConnected env t" using that tracePath_connected by blast
  show "tick (tracePath env vectors False s) = tick s + length vectors"
    if "\<forall>t. page_isConnected env t" using that tracePath_connected by blast
  show "fst (trace env vectors abortOnMove s) = Inr ()" by (simp add: trace_def)
qed

theorem tracePath_failed_move_witness:
  "tracePath (calmPage\<lparr>page_mouse_move := (\<lambda>t. if t = 1 then None else Some ())\<rparr>)
     [\<lparr>xc = Fin 2, yc = Fin 2\<rparr>, \<lparr>xc = Fin 3, yc = Fin 3\<rparr>] False ((createCursor origin)\<lparr>tick := 1\<rparr>) =
     \<lparr>previous = \<lparr>xc = Fin 3, yc = Fin 3\<rparr>, moving = False, pointer = [\<lparr>xc = Fin 3, yc = Fin 3\<rparr>],
      console = [''Warning: could not move mouse, error message:''], tick = 3\<rparr> \<and>
   tracePath (calmPage\<lparr>page_mouse_move := (\<lambda>t. if t = 1 then None else Some ()),
                       page_isConnected := (\<lambda>t. False)\<rparr>)
     [\<lparr>xc = Fin 2, yc = Fin 2\<rparr>, \<lparr>xc = Fin 3, yc = Fin 3\<rparr>] False ((createCursor origin)\<lparr>tick := 1\<rparr>) =
     \<lparr>previous = \<lparr>xc = Fin 0, yc = Fin 0\<rparr>, moving = False, pointer = [], console = [], tick = 2\<rparr> \<and>
   pointer (tracePath (calmPage\<lparr>page_mouse_move := (\<lambda>t. if t = 1 then None else Some ())\<rparr>)
     [\<lparr>xc = Fin 1, yc = Fin 1\<rparr>, \<lparr>xc = Fin 2, yc = Fin 2\<rparr>, \<lparr>xc = Fin 3, yc = Fin 3\<rparr>] False (createCursor origin)) =
     [\<lparr>xc = Fin 1, yc = Fin 1\<rparr>, \<lparr>xc = Fin 3, yc = Fin 3\<rparr>]"
proof -
  let ?f = "calmPage\<lparr>page_mouse_move := (\<lambda>t. if t = 1 then None else Some ())\<rparr>"
  let ?d = "calmPage\<lparr>page_mouse_move := (\<lambda>t. if t = 1 then None else Some ()),
                       page_isConnected := (\<lambda>t. False)\<rparr>"
  let ?s = "(createCursor origin)\<lparr>tick := 1\<rparr>"
  have a: "tracePath ?f [\<lparr>xc = Fin 2, yc = Fin 2\<rparr>, \<lparr>xc = Fin 3, yc = Fin 3\<rparr>] False ?s =
     \<lparr>previous = \<lparr>xc = Fin 3, yc = Fin 3\<rparr>, moving = False, pointer = [\<lparr>xc = Fin 3, yc = Fin 3\<rparr>],
      console = [''Warning: could not move mouse, error message:''], tick = 3\<rparr>"
    using tracePath_failed_move [of False ?s ?f "\<lparr>xc = Fin 2, yc = Fin 2\<rparr>" "[\<lparr>xc = Fin 3, yc = Fin 3\<rparr>]"]
    by (simp add: calmPage_def createCursor_def as_js_def origin_def traceStep_def)
  have b: "tracePath ?d [\<lparr>xc = Fin 2, yc = Fin 2\<rparr>, \<lparr>xc = Fin 3, yc = Fin 3\<rparr>] False ?s =
     \<lparr>previous = \<lparr>xc = Fin 0, yc = Fin 0\<rparr>, moving = False, pointer = [], console = [], tick = 2\<rparr>"
    using tracePath_failed_move [of False ?s ?d "\<lparr>xc = Fin 2, yc = Fin 2\<rparr>" "[\<lparr>xc = Fin 3, yc = Fin 3\<rparr>]"]
    by (simp add: calmPage_def createCursor_def as_js_def origin_def)
  have c: "pointer (tracePath ?f
     [\<lparr>xc = Fin 1, yc = Fin 1\<rparr>, \<lparr>xc = Fin 2, yc = Fin 2\<rparr>, \<lparr>xc = Fin 3, yc = Fin 3\<rparr>] False (createCursor origin)) =
     [\<lparr>xc = Fin 1, yc = Fin 1\<rparr>, \<lparr>xc = Fin 3, yc = Fin 3\<rparr>]"
    using tracePath_failed_move [of False "createCursor origin" ?f "\<lparr>xc = Fin 1, yc = Fin 1\<rparr>"
        "[\<lparr>xc = Fin 1, yc = Fin 1\<rparr>, \<lparr>xc = Fin 2, yc = Fin 2\<rparr>, \<lparr>xc = Fin 3, yc = Fin 3\<rparr>]"]
    by (simp add: calmPage_def createCursor_def as_js_def)
  show ?thesis using a b c by blast
qed

lemma traceStep_cases:
  "(pointer (snd (traceStep env a v s)) = pointer s \<and> previous (snd (traceStep env a v s)) = previous s) \<or>
   (pointer (snd (traceStep env a v s)) = pointer s @ [v] \<and> previous (snd (traceStep env a v s)) = v)"
  by (simp add: traceStep_def Let_def split: option.splits)

lemma tracePath_reached:
  "\<exists>reached. pointer (tracePath env vs a s) = pointer s @ reached \<and>
     previous (tracePath env vs a s) = (if reached = [] then previous s else last reached)"
proof (induction vs arbitrary: s)
  case Nil
  show ?case by simp
next
  case (Cons v vs)
  obtain c s' where st: "traceStep env a v s = (c, s')" by (cases "traceStep env a v s")
  have one: "(pointer s' = pointer s \<and> previous s' = previous s) \<or>
             (pointer s' = pointer s @ [v] \<and> previous s' = v)"
    using traceStep_cases [of env a v s] st by simp
  show ?case
  proof (cases c)
    case False
    then have e: "tracePath env (v # vs) a s = s'" using st by simp
    from one show ?thesis
    proof
      assume "pointer s' = pointer s \<and> previous s' = previous s"
      then show ?thesis unfolding e by (intro exI [of _ "[]"]) simp
    next
      assume "pointer s' = pointer s @ [v] \<and> previous s' = v"
      then show ?thesis unfolding e by (intro exI [of _ "[v]"]) simp
    qed
  next
    case True
    then have e: "tracePath env (v # vs) a s = tracePath env vs a s'" using st by simp
    obtain r where r: "pointer (tracePath env vs a s') = pointer s' @ r"
      "previous (tracePath env vs a s') = (if r = [] then previous s' else last r)"
      using Cons.IH [of s'] by blast
    from one show ?thesis
    proof
      assume "pointer s' = pointer s \<and> previous s' = previous s"
      then show ?thesis unfolding e using r by (intro exI [of _ r]) simp
    next
      assume "pointer s' = pointer s @ [v] \<and> previous s' = v"
      then show ?thesis unfolding e using r by (intro exI [of _ "v # r"]) simp
    qed
  qed
qed

text \<open>
  Claim C2, as the code has it. \<open>tracePath\<close> sets \<open>previous\<close> after every pointer
  move that resolves, to the point just reached, so also in the middle of a trace. When
  \<open>tracePath\<close> returns, whether after the last point, on preemption or on
  disconnection, \<open>previous\<close> is the last point that this trace reached, or what it was
  before when the trace reached none.
\<close>

theorem tracePath_previous:
  "(\<not> (abortOnMove \<and> moving s) \<and> page_mouse_move env (tick s) \<noteq> None \<longrightarrow>
      fst (traceStep env abortOnMove v s) \<and>
      previous (snd (traceStep env abortOnMove v s)) = v \<and>
      pointer (snd (traceStep env abortOnMove v s)) = pointer s @ [v]) \<and>
   (\<exists>reached.
      pointer (tracePath env vectors abortOnMove s) = pointer s @ reached \<and>
      previous (tracePath env vectors abortOnMove s) =
        (if reached = [] then previous s else last reached))"
proof (intro conjI impI)
  assume h: "\<not> (abortOnMove \<and> moving s) \<and> page_mouse_move env (tick s) \<noteq> None"
  then show "fst (traceStep env abortOnMove v s)"
    and "previous (snd (traceStep env abortOnMove v s)) = v"
    and "pointer (snd (traceStep env abortOnMove v s)) = pointer s @ [v]"
    by (auto simp add: traceStep_def Let_def split: option.splits)
next
  show "\<exists>reached.
      pointer (tracePath env vectors abortOnMove s) = pointer s @ reached \<and>
      previous (tracePath env vectors abortOnMove s) =
        (if reached = [] then previous s else last reached)"
    by (rule tracePath_reached)
qed

theorem tracePath_previous_witness:
  "fst (traceStep calmPage True \<lparr>xc = Fin 1, yc = Fin 1\<rparr> (createCursor origin)) \<and>
   previous (snd (traceStep calmPage True \<lparr>xc = Fin 1, yc = Fin 1\<rparr> (createCursor origin))) = \<lparr>xc = Fin 1, yc = Fin 1\<rparr> \<and>
   pointer (snd (traceStep calmPage True \<lparr>xc = Fin 1, yc = Fin 1\<rparr> (createCursor origin))) = [\<lparr>xc = Fin 1, yc = Fin 1\<rparr>]"
  using tracePath_previous [of True "createCursor origin" calmPage "\<lparr>xc = Fin 1, yc = Fin 1\<rparr>" "[]"]
  by (simp add: calmPage_def createCursor_def as_js_def)

text \<open>
  Claim C2 as stated fails. A trace of two points whose second pointer move rejects on a
  disconnected page ends, without preemption, with \<open>previous\<close> at the first point,
  though the path was not traced to its end. And a run of \<open>randomMove\<close> whose trace is
  preempted after its first point leaves \<open>previous\<close> at the random destination
  \<open>(400, 300)\<close>, while the last point reached is \<open>(0, 0)\<close>.
\<close>

theorem previous_updated_mid_trace:
  "tracePath (calmPage\<lparr>page_mouse_move := (\<lambda>t. if t = 0 then Some () else None),
                       page_isConnected := (\<lambda>t. False)\<rparr>)
     [\<lparr>xc = Fin 1, yc = Fin 1\<rparr>, \<lparr>xc = Fin 2, yc = Fin 2\<rparr>] False (createCursor origin) =
     \<lparr>previous = \<lparr>xc = Fin 1, yc = Fin 1\<rparr>, moving = False, pointer = [\<lparr>xc = Fin 1, yc = Fin 1\<rparr>],
      console = [], tick = 2\<rparr> \<and>
   randomMove (calmPage\<lparr>interrupt := (\<lambda>t. True)\<rparr>) (createCursor origin) =
     (Inr True,
      \<lparr>previous = \<lparr>xc = Fin 400, yc = Fin 300\<rparr>, moving = True, pointer = [\<lparr>xc = Fin 0, yc = Fin 0\<rparr>],
       console = [], tick = 6\<rparr>)"
proof
  show "tracePath (calmPage\<lparr>page_mouse_move := (\<lambda>t. if t = 0 then Some () else None),
                       page_isConnected := (\<lambda>t. False)\<rparr>)
     [\<lparr>xc = Fin 1, yc = Fin 1\<rparr>, \<lparr>xc = Fin 2, yc = Fin 2\<rparr>] False (createCursor origin) =
     \<lparr>previous = \<lparr>xc = Fin 1, yc = Fin 1\<rparr>, moving = False, pointer = [\<lparr>xc = Fin 1, yc = Fin 1\<rparr>],
      console = [], tick = 2\<rparr>"
    by (simp add: traceStep_def calmPage_def createCursor_def as_js_def)
  show "randomMove (calmPage\<lparr>interrupt := (\<lambda>t. True)\<rparr>) (createCursor origin) =
     (Inr True,
      \<lparr>previous = \<lparr>xc = Fin 400, yc = Fin 300\<rparr>, moving = True, pointer = [\<lparr>xc = Fin 0, yc = Fin 0\<rparr>],
       console = [], tick = 6\<rparr>)"
    by (simp add: randomMove_def catch_def getRandomPagePoint_def bind_assoc calmPage_def
        createCursor_def as_js_def origin_def getRandomBoxPoint_def path_chord clampPositive_def clamp0_def
        target_point_def traceStep_def return_def)
qed

lemma bind_catch:
  "bind (catch m h) f s =
     (case m s of
        (Inl e, s') \<Rightarrow> if e = NoReturn then (Inl NoReturn, s') else bind (h e) f s'
      | (Inr a, s') \<Rightarrow> f a s')"
  by (simp add: bind_def catch_def split: prod.splits sum.splits)

lemma bind_done: "m s = (Inr a, s') \<Longrightarrow> bind m f s = f a s'"
  by (simp add: bind_def)

lemma calmPage_fields:
  "page_mouse_move calmPage t = Some ()"
  "page_mouse_down calmPage t = Some ()"
  "page_mouse_up calmPage t = Some ()"
  "page_isConnected calmPage t"
  "page_waitForSelector calmPage t str ms = Some ()"
  "page_waitForXPath calmPage t str ms = Some ()"
  "page_query calmPage t str = Some None"
  "page_xpath calmPage t str = Some None"
  "page_evaluate calmPage t = Some ()"
  "page_getContentQuads calmPage t oid = Some [Quad 100 100 120 100 120 120 100 120]"
  "page_getWindowForTarget calmPage t = Some (800, 600)"
  "\<not> interrupt calmPage t"
  "random calmPage t = 1 / 2"
  "bezierCurve calmPage t = chordCurve"
  "overshoot calmPage t destination radius = destination"
  by (simp_all add: calmPage_def)

lemma idle_toggle: "idle_after (toggleRandomMove True)"
  by (simp add: idle_after_def toggleRandomMove_def)

lemma idle_throw: "idle_after (throw e)"
  by (simp add: idle_after_def throw_def)

lemma idle_bind: "(\<And>a. idle_after (f a)) \<Longrightarrow> idle_after (bind m f)"
  unfolding idle_after_def bind_def
  by (auto split: prod.splits sum.splits)

lemma idle_if: "idle_after m \<Longrightarrow> idle_after n \<Longrightarrow> idle_after (if c then m else n)"
  by simp

lemma idle_option: "idle_after m \<Longrightarrow> (\<And>x. idle_after (f x)) \<Longrightarrow> idle_after (case opt of None \<Rightarrow> m | Some x \<Rightarrow> f x)"
  by (cases opt) simp_all

lemma idle_moveTo: "idle_after (moveTo env destination)"
  unfolding moveTo_def by (intro idle_bind idle_toggle)

lemma idle_move: "idle_after (move env selector' options)"
  unfolding move_def Let_def by (intro idle_bind idle_option idle_throw idle_toggle)

lemma idle_click: "idle_after (click env selector' options)"
  unfolding click_def by (intro idle_bind idle_toggle)

text \<open>
  Claim C10. Whenever \<open>moveTo\<close>, \<open>move\<close> or \<open>click\<close> returns without throwing,
  \<open>moving\<close> is false in the state it leaves, whatever the state before the call was (the
  state does not record whether random moves were requested at construction). In
  particular this holds for a \<open>moveTo\<close> that follows \<open>toggleRandomMove(false)\<close>.
\<close>

theorem explicit_operation_ends_idle:
  "(fst (moveTo env destination s) = Inr () \<longrightarrow> \<not> moving (snd (moveTo env destination s))) \<and>
   (fst (move env selector' options s) = Inr () \<longrightarrow> \<not> moving (snd (move env selector' options s))) \<and>
   (fst (click env target click_options s) = Inr () \<longrightarrow>
      \<not> moving (snd (click env target click_options s))) \<and>
   (fst (moveTo env destination (snd (toggleRandomMove False s))) = Inr () \<longrightarrow>
      \<not> moving (snd (moveTo env destination (snd (toggleRandomMove False s)))))"
proof (intro conjI impI)
  show "\<not> moving (snd (moveTo env destination s))" if "fst (moveTo env destination s) = Inr ()"
    using idle_moveTo [of env destination] that
    unfolding idle_after_def by (metis prod.collapse)
  show "\<not> moving (snd (move env selector' options s))" if "fst (move env selector' options s) = Inr ()"
    using idle_move [of env selector' options] that
    unfolding idle_after_def by (metis prod.collapse)
  show "\<not> moving (snd (click env target click_options s))"
    if "fst (click env target click_options s) = Inr ()"
    using idle_click [of env target click_options] that
    unfolding idle_after_def by (metis prod.collapse)
  show "\<not> moving (snd (moveTo env destination (snd (toggleRandomMove False s))))"
    if "fst (moveTo env destination (snd (toggleRandomMove False s))) = Inr ()"
    using idle_moveTo [of env destination] that
    unfolding idle_after_def by (metis prod.collapse)
qed

theorem explicit_operation_ends_idle_witness:
  "moveTo calmPage \<lparr>xc = 30, yc = 40\<rparr> ((createCursor origin)\<lparr>moving := True\<rparr>) =
     (Inr (), \<lparr>previous = \<lparr>xc = Fin 30, yc = Fin 40\<rparr>, moving = False,
               pointer = [\<lparr>xc = Fin 0, yc = Fin 0\<rparr>, \<lparr>xc = Fin 30, yc = Fin 40\<rparr>], console = [], tick = 3\<rparr>) \<and>
   move calmPage (Element \<lparr>remoteObject = Some (Id ''node'')\<rparr>) (None :: MoveOptions option)
     ((createCursor origin)\<lparr>moving := True\<rparr>) =
     (Inr (), \<lparr>previous = \<lparr>xc = Fin 110, yc = Fin 110\<rparr>, moving = False,
               pointer = [\<lparr>xc = Fin 0, yc = Fin 0\<rparr>, \<lparr>xc = Fin 110, yc = Fin 110\<rparr>], console = [], tick = 7\<rparr>) \<and>
   fst (click calmPage (Some (Element \<lparr>remoteObject = Some (Id ''node'')\<rparr>))
     (None :: ClickOptions option) ((createCursor origin)\<lparr>moving := True\<rparr>)) = Inr () \<and>
   \<not> moving (snd (moveTo calmPage \<lparr>xc = 30, yc = 40\<rparr> ((createCursor origin)\<lparr>moving := True\<rparr>))) \<and>
   \<not> moving (snd (move calmPage (Element \<lparr>remoteObject = Some (Id ''node'')\<rparr>)
     (None :: MoveOptions option) ((createCursor origin)\<lparr>moving := True\<rparr>))) \<and>
   \<not> moving (snd (click calmPage (Some (Element \<lparr>remoteObject = Some (Id ''node'')\<rparr>))
     (None :: ClickOptions option) ((createCursor origin)\<lparr>moving := True\<rparr>)))"
proof -
  let ?s = "(createCursor origin)\<lparr>moving := True\<rparr>"
  let ?e = "Element \<lparr>remoteObject = Some (Id ''node'')\<rparr>"
  let ?t = "\<lparr>previous = \<lparr>xc = Fin 110, yc = Fin 110\<rparr>, moving = False,
             pointer = [\<lparr>xc = Fin 0, yc = Fin 0\<rparr>, \<lparr>xc = Fin 110, yc = Fin 110\<rparr>], console = [], tick = 7\<rparr>"
  have far: "\<not> shouldOvershoot_from \<lparr>xc = Fin 0, yc = Fin 0\<rparr> \<lparr>xc = 110, yc = 110\<rparr>"
    by (simp add: shouldOvershoot_from_def finite_vector_def shouldOvershoot_squares)
  have t: "moveTo calmPage \<lparr>xc = 30, yc = 40\<rparr> ?s =
     (Inr (), \<lparr>previous = \<lparr>xc = Fin 30, yc = Fin 40\<rparr>, moving = False,
               pointer = [\<lparr>xc = Fin 0, yc = Fin 0\<rparr>, \<lparr>xc = Fin 30, yc = Fin 40\<rparr>], console = [], tick = 3\<rparr>)"
    by (simp add: moveTo_def calmPage_fields createCursor_def as_js_def origin_def path_chord
        clampPositive_def clamp0_def traceStep_def toggleRandomMove_def)
  have m: "move calmPage ?e (None :: 'c MoveOptions_scheme option) ?s = (Inr (), ?t)"
    by (simp add: move_def Let_def resolve_def scrollIntoView_def getElementBox_def bind_assoc
        calmPage_fields createCursor_def as_js_def origin_def getRandomBoxPoint_def far path_chord
        clampPositive_def clamp0_def traceStep_def toggleRandomMove_def)
  have md: "bind (move calmPage ?e (None :: ClickOptions option)) f ?s = f () ?t"
    for f :: "unit \<Rightarrow> unit action"
    by (rule bind_done) (rule m)
  have c: "fst (click calmPage (Some ?e) (None :: ClickOptions option) ?s) = Inr ()"
    by (simp add: click_def bind_assoc md bind_catch await_def calmPage_fields toggleRandomMove_def)
  have m0: "move calmPage ?e (None :: MoveOptions option) ?s = (Inr (), ?t)"
    by (rule m)
  show ?thesis
    using t m0 c
      explicit_operation_ends_idle [of calmPage "\<lparr>xc = 30, yc = 40\<rparr>" ?s ?e
        "None :: MoveOptions option" "Some ?e" "None :: ClickOptions option"]
    by simp
qed

end
